theory Spec2Isabelle
  imports Complex_Main
begin

section \<open>The SQUID school notebook: a VQE run for molecular hydrogen\<close>

text \<open>
  The repository is one Jupyter notebook, \<^verbatim>\<open>SQUIDnotebookIgor\<close>: a top-to-bottom script of
  calls into numpy, matplotlib and the Qiskit framework. The notebook is modelled cell by
  cell. Its global namespace is a map from names to values, every call that leaves the
  notebook is answered by a \<open>library\<close> given as a parameter and is recorded in a trace, and
  an exception ends the run.
\<close>

subsection \<open>Values\<close>

text \<open>
  Python values as the notebook handles them. Numbers, strings, lists, dictionaries and
  numpy arrays are transparent. An object of the framework is an opaque handle \<open>PObj\<close>:
  the notebook only reads its attributes and calls its methods, and both are answered by
  the library. \<open>PFloatArr c rows\<close> is a two-dimensional float64 array with \<open>c\<close> columns.
  Python floats are modelled as reals: rounding is not part of the model.
\<close>

datatype pyval =
    PNone
  | PBool bool
  | PInt int
  | PFloat real
  | PStr string
  | PList "pyval list"
  | PDict "(string \<times> pyval) list"
  | PComplexArr "complex list"
  | PFloatVec "real list"
  | PFloatArr nat "real list list"
  | PImported string
  | PObj nat

datatype error =
    NameError string
  | TypeError string
  | ValueError string
  | IndexError string
  | KeyError string
  | External string string

text \<open>What the library answers to a call or an attribute read: an exception or a value.\<close>

datatype outcome = Raises string | Returns pyval

text \<open>
  What a run does that can be observed from outside the notebook's namespace: a call into
  a library (the callee as written in the source, the callee or receiver value followed
  by the positional arguments, the keyword arguments, and the answer), a line printed,
  and the value a cell shows for its last expression.
\<close>

datatype event =
    Call string "pyval list" "(string \<times> pyval) list" outcome
  | Print string "pyval list"
  | Display pyval

text \<open>
  The libraries. An attribute read is a function of the object; a call may depend on
  everything that happened before it, so the same call may be answered differently at
  different times.
\<close>

record library =
  attr_of :: "string \<Rightarrow> pyval \<Rightarrow> outcome"
  call_of :: "event list \<Rightarrow> string \<Rightarrow> pyval list \<Rightarrow> (string \<times> pyval) list \<Rightarrow> outcome"

record state =
  globals :: "string \<Rightarrow> pyval option"
  trace :: "event list"

definition init_state :: state where
  "init_state = \<lparr>globals = (\<lambda>n. None), trace = []\<rparr>"

subsection \<open>Statements and expressions\<close>

type_synonym 'a prog = "state \<Rightarrow> (error + 'a) \<times> state"

definition ret :: "'a \<Rightarrow> 'a prog" where
  "ret a s = (Inr a, s)"

definition raise :: "error \<Rightarrow> 'a prog" where
  "raise e s = (Inl e, s)"

definition bindP :: "'a prog \<Rightarrow> ('a \<Rightarrow> 'b prog) \<Rightarrow> 'b prog" where
  "bindP m f s = (case m s of (Inl e, s') \<Rightarrow> (Inl e, s') | (Inr a, s') \<Rightarrow> f a s')"

definition thenP :: "unit prog \<Rightarrow> 'b prog \<Rightarrow> 'b prog" where
  "thenP m n = bindP m (\<lambda>u. n)"

fun block :: "unit prog list \<Rightarrow> unit prog" where
  "block [] = ret ()"
| "block (m # ms) = thenP m (block ms)"

definition lift :: "error + 'a \<Rightarrow> 'a prog" where
  "lift r = (case r of Inl e \<Rightarrow> raise e | Inr a \<Rightarrow> ret a)"

text \<open>A name is looked up in the global namespace; an unbound name raises NameError.\<close>

definition name :: "string \<Rightarrow> pyval prog" where
  "name n s = (case globals s n of None \<Rightarrow> (Inl (NameError n), s) | Some v \<Rightarrow> (Inr v, s))"

definition lit :: "pyval \<Rightarrow> pyval prog" where
  "lit v = ret v"

definition bind_name :: "string \<Rightarrow> pyval \<Rightarrow> unit prog" where
  "bind_name n v s = (Inr (), s\<lparr>globals := (globals s)(n \<mapsto> v)\<rparr>)"

definition assign :: "string \<Rightarrow> pyval prog \<Rightarrow> unit prog" where
  "assign n e = bindP e (bind_name n)"

definition emit :: "event \<Rightarrow> unit prog" where
  "emit ev s = (Inr (), s\<lparr>trace := trace s @ [ev]\<rparr>)"

text \<open>Arguments are evaluated from left to right, positional ones before keyword ones.\<close>

fun evals :: "pyval prog list \<Rightarrow> pyval list prog" where
  "evals [] = ret []"
| "evals (e # es) = bindP e (\<lambda>v. bindP (evals es) (\<lambda>vs. ret (v # vs)))"

fun evalkw :: "(string \<times> pyval prog) list \<Rightarrow> (string \<times> pyval) list prog" where
  "evalkw [] = ret []"
| "evalkw ((k, e) # es) = bindP e (\<lambda>v. bindP (evalkw es) (\<lambda>vs. ret ((k, v) # vs)))"

text \<open>A call into a library: the answer comes from the library and the call is recorded.\<close>

definition extern :: "library \<Rightarrow> string \<Rightarrow> pyval list \<Rightarrow> (string \<times> pyval) list \<Rightarrow> pyval prog" where
  "extern lib f args kws s =
     (let r = call_of lib (trace s) f args kws;
          s' = s\<lparr>trace := trace s @ [Call f args kws r]\<rparr>
      in case r of Raises x \<Rightarrow> (Inl (External f x), s') | Returns v \<Rightarrow> (Inr v, s'))"

text \<open>
  \<open>invoke lib f args kws\<close> is the call \<^verbatim>\<open>f(args, kws)\<close> of an imported name \<open>f\<close>;
  \<open>call_method lib l r args kws\<close> is a call \<^verbatim>\<open>r.m(args, kws)\<close>, where \<open>l\<close> is the callee
  \<^verbatim>\<open>r.m\<close> as the source writes it. The callee is evaluated before the arguments.
\<close>

definition invoke :: "library \<Rightarrow> string \<Rightarrow> pyval prog list \<Rightarrow> (string \<times> pyval prog) list \<Rightarrow> pyval prog" where
  "invoke lib f args kws =
     bindP (name f) (\<lambda>fv. bindP (evals args) (\<lambda>avs. bindP (evalkw kws) (\<lambda>kvs.
       extern lib f (fv # avs) kvs)))"

definition call_method :: "library \<Rightarrow> string \<Rightarrow> pyval prog \<Rightarrow> pyval prog list \<Rightarrow> (string \<times> pyval prog) list \<Rightarrow> pyval prog" where
  "call_method lib l r args kws =
     bindP r (\<lambda>rv. bindP (evals args) (\<lambda>avs. bindP (evalkw kws) (\<lambda>kvs.
       extern lib l (rv # avs) kvs)))"

definition attr :: "library \<Rightarrow> pyval prog \<Rightarrow> string \<Rightarrow> pyval prog" where
  "attr lib r a =
     bindP r (\<lambda>rv. case attr_of lib a rv of
                      Raises x \<Rightarrow> raise (External a x)
                    | Returns v \<Rightarrow> ret v)"

definition expr_stmt :: "pyval prog \<Rightarrow> unit prog" where
  "expr_stmt e = bindP e (\<lambda>v. ret ())"

text \<open>The value of the last expression of a cell is shown by the notebook.\<close>

definition display :: "pyval prog \<Rightarrow> unit prog" where
  "display e = bindP e (\<lambda>v. emit (Display v))"

text \<open>
  \<^verbatim>\<open>print(fmt.format(e))\<close>: the event keeps the format string and the value; how a float
  is turned into text is not modelled.
\<close>

definition print_fmt :: "string \<Rightarrow> pyval prog list \<Rightarrow> unit prog" where
  "print_fmt fmt es = bindP (evals es) (\<lambda>vs. emit (Print fmt vs))"

subsection \<open>Operators of the language\<close>

text \<open>
  Arithmetic, comparison, truth values, subscripts and \<^verbatim>\<open>range\<close> on the kinds of value
  the notebook applies them to. \<^verbatim>\<open>bool\<close> is a subclass of \<^verbatim>\<open>int\<close>. On an opaque
  framework object these operators are outside the model and raise TypeError.
\<close>

datatype num = NInt int | NFloat real

fun as_num :: "pyval \<Rightarrow> num option" where
  "as_num (PBool b) = Some (NInt (if b then 1 else 0))"
| "as_num (PInt i) = Some (NInt i)"
| "as_num (PFloat x) = Some (NFloat x)"
| "as_num v = None"

fun to_real :: "num \<Rightarrow> real" where
  "to_real (NInt i) = of_int i"
| "to_real (NFloat x) = x"

definition arith :: "(int \<Rightarrow> int \<Rightarrow> int) \<Rightarrow> (real \<Rightarrow> real \<Rightarrow> real) \<Rightarrow> pyval \<Rightarrow> pyval \<Rightarrow> error + pyval" where
  "arith fi fr a b =
     (case (as_num a, as_num b) of
        (Some (NInt i), Some (NInt j)) \<Rightarrow> Inr (PInt (fi i j))
      | (Some x, Some y) \<Rightarrow> Inr (PFloat (fr (to_real x) (to_real y)))
      | (u, v) \<Rightarrow> Inl (TypeError ''unsupported operand type(s)''))"

definition py_add :: "pyval \<Rightarrow> pyval \<Rightarrow> error + pyval" where
  "py_add = arith (\<lambda>i j. i + j) (\<lambda>x y. x + y)"

definition py_sub :: "pyval \<Rightarrow> pyval \<Rightarrow> error + pyval" where
  "py_sub = arith (\<lambda>i j. i - j) (\<lambda>x y. x - y)"

definition py_mul :: "pyval \<Rightarrow> pyval \<Rightarrow> error + pyval" where
  "py_mul = arith (\<lambda>i j. i * j) (\<lambda>x y. x * y)"

definition py_eq :: "pyval \<Rightarrow> pyval \<Rightarrow> bool" where
  "py_eq a b =
     (case (as_num a, as_num b) of
        (Some x, Some y) \<Rightarrow> to_real x = to_real y
      | (u, v) \<Rightarrow> a = b)"

definition binop :: "(pyval \<Rightarrow> pyval \<Rightarrow> error + pyval) \<Rightarrow> pyval prog \<Rightarrow> pyval prog \<Rightarrow> pyval prog" where
  "binop f a b = bindP a (\<lambda>x. bindP b (\<lambda>y. lift (f x y)))"

definition equals :: "pyval prog \<Rightarrow> pyval prog \<Rightarrow> pyval prog" where
  "equals a b = bindP a (\<lambda>x. bindP b (\<lambda>y. ret (PBool (py_eq x y))))"

fun truthy :: "pyval \<Rightarrow> error + bool" where
  "truthy PNone = Inr False"
| "truthy (PBool b) = Inr b"
| "truthy (PInt i) = Inr (i \<noteq> 0)"
| "truthy (PFloat x) = Inr (x \<noteq> 0)"
| "truthy (PStr s) = Inr (s \<noteq> [])"
| "truthy (PList vs) = Inr (vs \<noteq> [])"
| "truthy (PDict kvs) = Inr (kvs \<noteq> [])"
| "truthy (PComplexArr cs) = Inl (ValueError ''truth value of an array'')"
| "truthy (PFloatVec xs) = Inl (ValueError ''truth value of an array'')"
| "truthy (PFloatArr c rows) = Inl (ValueError ''truth value of an array'')"
| "truthy (PImported q) = Inr True"
| "truthy (PObj h) = Inr True"

text \<open>\<^verbatim>\<open>a if c else b\<close>: the condition first, then one of the two branches.\<close>

definition if_exp :: "pyval prog \<Rightarrow> pyval prog \<Rightarrow> pyval prog \<Rightarrow> pyval prog" where
  "if_exp a c b = bindP c (\<lambda>cv. bindP (lift (truthy cv)) (\<lambda>t. if t then a else b))"

text \<open>\<^verbatim>\<open>if c: body\<close> with no else branch.\<close>

definition if_stmt :: "pyval prog \<Rightarrow> unit prog \<Rightarrow> unit prog" where
  "if_stmt c body = bindP c (\<lambda>cv. bindP (lift (truthy cv)) (\<lambda>t. if t then body else ret ()))"

definition py_not :: "pyval prog \<Rightarrow> pyval prog" where
  "py_not e = bindP e (\<lambda>v. bindP (lift (truthy v)) (\<lambda>t. ret (PBool (\<not> t))))"

text \<open>
  The position an index denotes in a sequence of \<open>n\<close> elements: Python counts a negative
  index from the end, and an index outside \<open>-n .. n-1\<close> denotes nothing.
\<close>

definition position :: "nat \<Rightarrow> int \<Rightarrow> nat option" where
  "position n i =
     (if 0 \<le> i \<and> i < int n then Some (nat i)
      else if i < 0 \<and> - int n \<le> i then Some (nat (int n + i))
      else None)"

definition index :: "'a list \<Rightarrow> int \<Rightarrow> error + 'a" where
  "index xs i =
     (case position (length xs) i of
        None \<Rightarrow> Inl (IndexError ''index out of range'')
      | Some j \<Rightarrow> Inr (xs ! j))"

fun as_int :: "pyval \<Rightarrow> int option" where
  "as_int (PBool b) = Some (if b then 1 else 0)"
| "as_int (PInt i) = Some i"
| "as_int v = None"

definition subscript :: "pyval \<Rightarrow> pyval \<Rightarrow> error + pyval" where
  "subscript v k =
     (case v of
        PDict kvs \<Rightarrow>
          (case k of
             PStr key \<Rightarrow> (case map_of kvs key of None \<Rightarrow> Inl (KeyError key) | Some x \<Rightarrow> Inr x)
           | u \<Rightarrow> Inl (KeyError ''''))
      | PList vs \<Rightarrow>
          (case as_int k of
             Some i \<Rightarrow> index vs i
           | None \<Rightarrow> Inl (TypeError ''list indices must be integers''))
      | PFloatVec xs \<Rightarrow>
          (case as_int k of
             Some i \<Rightarrow> (case index xs i of Inl e \<Rightarrow> Inl e | Inr x \<Rightarrow> Inr (PFloat x))
           | None \<Rightarrow> Inl (IndexError ''only integers are valid indices''))
      | u \<Rightarrow> Inl (TypeError ''object is not subscriptable''))"

definition subscr :: "pyval prog \<Rightarrow> pyval prog \<Rightarrow> pyval prog" where
  "subscr e k = bindP e (\<lambda>v. bindP k (\<lambda>kv. lift (subscript v kv)))"

definition py_range :: "pyval \<Rightarrow> error + pyval list" where
  "py_range v =
     (case as_int v of
        Some n \<Rightarrow> Inr (map (\<lambda>k. PInt (int k)) [0..<nat n])
      | None \<Rightarrow> Inl (TypeError ''object cannot be interpreted as an integer''))"

text \<open>\<^verbatim>\<open>for x in vs: body\<close>: the loop variable is a global name, bound anew in every round.\<close>

fun for_each :: "string \<Rightarrow> pyval list \<Rightarrow> unit prog \<Rightarrow> unit prog" where
  "for_each x [] body = ret ()"
| "for_each x (v # vs) body = thenP (bind_name x v) (thenP body (for_each x vs body))"

definition for_range :: "string \<Rightarrow> pyval prog \<Rightarrow> unit prog \<Rightarrow> unit prog" where
  "for_range x e body = bindP e (\<lambda>n. bindP (lift (py_range n)) (\<lambda>vs. for_each x vs body))"

subsection \<open>The numpy array of the time sweep\<close>

text \<open>
  \<^verbatim>\<open>np.zeros([m, n])\<close> with no \<^verbatim>\<open>dtype\<close> is an \<open>m\<close> by \<open>n\<close> array of float64 zeros.
\<close>

definition np_zeros :: "pyval \<Rightarrow> pyval \<Rightarrow> error + pyval" where
  "np_zeros m n =
     (case (as_int m, as_int n) of
        (Some r, Some c) \<Rightarrow>
          if r < 0 \<or> c < 0 then Inl (ValueError ''negative dimensions are not allowed'')
          else Inr (PFloatArr (nat c) (replicate (nat r) (replicate (nat c) 0)))
      | (u, v) \<Rightarrow> Inl (TypeError ''object cannot be interpreted as an integer''))"

text \<open>
  What a row of a float64 array holds after a vector is assigned to it: numpy casts every
  element to float64, which for a complex element keeps the real part and drops the
  imaginary part (with a ComplexWarning, not an exception). A vector of one element is
  broadcast; any other length than the row's raises ValueError.
\<close>

definition cast_row :: "nat \<Rightarrow> pyval \<Rightarrow> error + real list" where
  "cast_row c v =
     (case v of
        PComplexArr cs \<Rightarrow>
          if length cs = c then Inr (map Re cs)
          else if length cs = 1 then Inr (replicate c (Re (hd cs)))
          else Inl (ValueError ''could not broadcast input array'')
      | PFloatVec xs \<Rightarrow>
          if length xs = c then Inr xs
          else if length xs = 1 then Inr (replicate c (hd xs))
          else Inl (ValueError ''could not broadcast input array'')
      | u \<Rightarrow> Inl (TypeError ''value cannot be assigned to a float64 row''))"

text \<open>\<^verbatim>\<open>a[i,:] = v\<close>\<close>

definition np_setrow :: "pyval \<Rightarrow> pyval \<Rightarrow> pyval \<Rightarrow> error + pyval" where
  "np_setrow a i v =
     (case a of
        PFloatArr c rows \<Rightarrow>
          (case as_int i of
             None \<Rightarrow> Inl (IndexError ''only integers are valid indices'')
           | Some k \<Rightarrow>
               (case position (length rows) k of
                  None \<Rightarrow> Inl (IndexError ''index out of bounds'')
                | Some j \<Rightarrow>
                    (case cast_row c v of
                       Inl e \<Rightarrow> Inl e
                     | Inr r \<Rightarrow> Inr (PFloatArr c (rows[j := r])))))
      | u \<Rightarrow> Inl (TypeError ''object does not support item assignment''))"

text \<open>\<^verbatim>\<open>a[:,j]\<close>\<close>

definition np_col :: "pyval \<Rightarrow> pyval \<Rightarrow> error + pyval" where
  "np_col a j =
     (case a of
        PFloatArr c rows \<Rightarrow>
          (case as_int j of
             None \<Rightarrow> Inl (IndexError ''only integers are valid indices'')
           | Some k \<Rightarrow>
               (case position c k of
                  None \<Rightarrow> Inl (IndexError ''index out of bounds'')
                | Some i \<Rightarrow> Inr (PFloatVec (map (\<lambda>r. r ! i) rows))))
      | u \<Rightarrow> Inl (TypeError ''object is not subscriptable''))"

text \<open>
  The assignment statement \<^verbatim>\<open>a[i,:] = e\<close> for a global name \<open>a\<close>: the right-hand side
  is evaluated first, then the array and the index; the array is updated in place.
\<close>

definition assign_row :: "string \<Rightarrow> pyval prog \<Rightarrow> pyval prog \<Rightarrow> unit prog" where
  "assign_row a i e =
     bindP e (\<lambda>v. bindP (name a) (\<lambda>av. bindP i (\<lambda>iv.
       bindP (lift (np_setrow av iv v)) (bind_name a))))"

subsection \<open>Configuration\<close>

text \<open>
  The constants a user of the notebook edits by hand: the mapping type (cell 5), the
  backend switch \<^verbatim>\<open>qasm\<close> (cell 11) and the horizon of the time sweep (cell 18). The
  notebook as committed sets them to \<open>notebook_config\<close>.
\<close>

record config =
  cfg_map_type :: string
  cfg_qasm :: bool
  cfg_evolution_time :: int

definition notebook_config :: config where
  "notebook_config = \<lparr>cfg_map_type = ''parity'', cfg_qasm = True, cfg_evolution_time = 100\<rparr>"

text \<open>The three mapping types the notebook names as choices.\<close>

definition mapping_choices :: "string list" where
  "mapping_choices = [''jordan_wigner'', ''parity'', ''bravyi_kitaev'']"

text \<open>
  The string literal passed to \<^verbatim>\<open>IBMQ.save_account\<close> in the source is 128 hexadecimal
  digits; only its first and last four are kept here.
\<close>

definition account_token :: string where
  "account_token = ''5976...4d9c''"

subsection \<open>The cells\<close>

text \<open>\<^verbatim>\<open>import m as n\<close> and \<^verbatim>\<open>from m import n1, n2\<close>: the module is loaded by the
  library, then the names are bound.\<close>

fun bind_imports :: "string list \<Rightarrow> unit prog" where
  "bind_imports [] = ret ()"
| "bind_imports (n # ns) = thenP (bind_name n (PImported n)) (bind_imports ns)"

definition import_from :: "library \<Rightarrow> string \<Rightarrow> string list \<Rightarrow> unit prog" where
  "import_from lib m ns = bindP (extern lib ''import'' [PStr m] []) (\<lambda>v. bind_imports ns)"

definition cell_imports :: "library \<Rightarrow> unit prog" where
  "cell_imports lib = block
     [import_from lib ''numpy'' [''np''],
      import_from lib ''matplotlib.pyplot'' [''plt''],
      import_from lib ''qiskit'' [''Aer'', ''IBMQ'', ''QuantumRegister''],
      import_from lib ''qiskit.providers.ibmq'' [''least_busy''],
      import_from lib ''qiskit.aqua'' [''Operator'', ''QuantumInstance''],
      import_from lib ''qiskit.aqua.algorithms'' [''VQE'', ''ExactEigensolver''],
      import_from lib ''qiskit.aqua.components.optimizers'' [''COBYLA'', ''SPSA'', ''P_BFGS''],
      import_from lib ''qiskit.aqua.components.variational_forms'' [''RY'', ''RYRZ''],
      import_from lib ''qiskit.chemistry'' [''FermionicOperator''],
      import_from lib ''qiskit.chemistry.drivers'' [''PySCFDriver'', ''UnitsType''],
      import_from lib ''qiskit.chemistry.aqua_extensions.components.variational_forms'' [''UCCSD''],
      import_from lib ''qiskit.chemistry.aqua_extensions.components.initial_states'' [''HartreeFock'']]"

text \<open>Step 1: the molecule and the scalars read from it.\<close>

definition cell_molecule :: "library \<Rightarrow> unit prog" where
  "cell_molecule lib = block
     [assign ''driver''
        (invoke lib ''PySCFDriver'' []
           [(''atom'', lit (PStr ''H .0 .0 .0; H .0 .0 1.6'')),
            (''unit'', attr lib (name ''UnitsType'') ''ANGSTROM''),
            (''charge'', lit (PInt 0)),
            (''spin'', lit (PInt 0)),
            (''basis'', lit (PStr ''sto3g''))]),
      assign ''molecule'' (call_method lib ''driver.run'' (name ''driver'') [] []),
      assign ''nuclear_repulsion_energy'' (attr lib (name ''molecule'') ''nuclear_repulsion_energy''),
      assign ''num_particles''
        (binop py_add (attr lib (name ''molecule'') ''num_alpha'')
                      (attr lib (name ''molecule'') ''num_beta'')),
      assign ''num_spin_orbitals''
        (binop py_mul (attr lib (name ''molecule'') ''num_orbitals'') (lit (PInt 2))),
      print_fmt ''HF energy: {}''
        [binop py_sub (attr lib (name ''molecule'') ''hf_energy'')
                      (attr lib (name ''molecule'') ''nuclear_repulsion_energy'')],
      print_fmt ''# of electrons: {}'' [name ''num_particles''],
      print_fmt ''# of spin orbitals: {}'' [name ''num_spin_orbitals'']]"

text \<open>Step 2: the mapping type, the fermionic operator and the qubit operator.\<close>

definition cell_map_type :: "config \<Rightarrow> unit prog" where
  "cell_map_type cfg = assign ''map_type'' (lit (PStr (cfg_map_type cfg)))"

definition cell_fermionic :: "library \<Rightarrow> unit prog" where
  "cell_fermionic lib = block
     [assign ''h1'' (attr lib (name ''molecule'') ''one_body_integrals''),
      assign ''h2'' (attr lib (name ''molecule'') ''two_body_integrals''),
      assign ''ferOp''
        (invoke lib ''FermionicOperator'' [] [(''h1'', name ''h1''), (''h2'', name ''h2'')])]"

definition cell_mapping :: "library \<Rightarrow> unit prog" where
  "cell_mapping lib = block
     [assign ''qubit_reduction''
        (if_exp (lit (PBool True))
                (equals (name ''map_type'') (lit (PStr ''parity'')))
                (lit (PBool False))),
      assign ''qubitOp''
        (call_method lib ''ferOp.mapping'' (name ''ferOp'') []
           [(''map_type'', name ''map_type''), (''threshold'', lit (PFloat (1 / 10 ^ 8)))]),
      assign ''qubitOp''
        (if_exp (call_method lib ''qubitOp.two_qubit_reduced_operator'' (name ''qubitOp'')
                   [name ''num_particles''] [])
                (name ''qubit_reduction'')
                (name ''qubitOp'')),
      expr_stmt (call_method lib ''qubitOp.chop'' (name ''qubitOp'') [lit (PFloat (1 / 10 ^ 10))] []),
      print_fmt ''{}'' [name ''qubitOp''],
      display (attr lib (name ''qubitOp'') ''paulis'')]"

text \<open>Step 3: optimizer, initial state and variational form.\<close>

definition cell_optimizer :: "library \<Rightarrow> unit prog" where
  "cell_optimizer lib = block
     [assign ''max_eval'' (lit (PInt 200)),
      assign ''optimizer'' (invoke lib ''COBYLA'' [] [(''maxiter'', name ''max_eval'')])]"

definition cell_hartree_fock :: "library \<Rightarrow> unit prog" where
  "cell_hartree_fock lib =
     assign ''HF_state''
       (invoke lib ''HartreeFock''
          [attr lib (name ''qubitOp'') ''num_qubits'', name ''num_spin_orbitals'',
           name ''num_particles'', name ''map_type'', name ''qubit_reduction''] [])"

definition cell_var_form :: "library \<Rightarrow> unit prog" where
  "cell_var_form lib =
     assign ''var_form''
       (invoke lib ''UCCSD'' [attr lib (name ''qubitOp'') ''num_qubits'']
          [(''depth'', lit (PInt 1)),
           (''num_orbitals'', name ''num_spin_orbitals''),
           (''num_particles'', name ''num_particles''),
           (''active_occupied'', lit PNone),
           (''active_unoccupied'', lit PNone),
           (''initial_state'', name ''HF_state''),
           (''qubit_mapping'', name ''map_type''),
           (''two_qubit_reduction'', name ''qubit_reduction''),
           (''num_time_slices'', lit (PInt 1))])"

text \<open>The backend: the switch, the branch taken when it is set and the one taken when it
  is not. The cell between the switch and the first branch is all comments.\<close>

definition cell_qasm :: "config \<Rightarrow> unit prog" where
  "cell_qasm cfg = assign ''qasm'' (lit (PBool (cfg_qasm cfg)))"

definition cell_backend_qasm :: "library \<Rightarrow> unit prog" where
  "cell_backend_qasm lib =
     if_stmt (name ''qasm'') (block
       [assign ''qasm_simulator''
          (call_method lib ''Aer.get_backend'' (name ''Aer'') [lit (PStr ''qasm_simulator'')] []),
        expr_stmt
          (call_method lib ''IBMQ.save_account'' (name ''IBMQ'') [lit (PStr account_token)]
             [(''overwrite'', lit (PBool True))]),
        expr_stmt (call_method lib ''IBMQ.load_accounts'' (name ''IBMQ'') [] []),
        assign ''lb_device''
          (invoke lib ''least_busy'' [call_method lib ''IBMQ.backends'' (name ''IBMQ'') [] []] []),
        print_fmt ''{}'' [name ''lb_device''],
        assign ''quantum_instance''
          (invoke lib ''QuantumInstance'' [] [(''backend'', name ''lb_device'')]),
        assign ''device'' (name ''lb_device''),
        assign ''properties'' (call_method lib ''device.properties'' (name ''device'') [] []),
        assign ''coupling_map''
          (attr lib (call_method lib ''device.configuration'' (name ''device'') [] []) ''coupling_map''),
        assign ''noise_model''
          (call_method lib ''noise.device.basic_device_noise_model''
             (attr lib (name ''noise'') ''device'') [name ''properties''] []),
        assign ''basis_gates'' (attr lib (name ''noise_model'') ''basis_gates''),
        assign ''shots'' (lit (PInt 10000)),
        assign ''quantum_instance''
          (invoke lib ''QuantumInstance'' [name ''qasm_simulator'']
             [(''shots'', name ''shots''),
              (''basis_gates'', name ''basis_gates''),
              (''coupling_map'', name ''coupling_map''),
              (''initial_layout'', name ''qubit_mapper''),
              (''noise_model'', name ''noise_model'')]),
        assign ''sv_mode'' (lit (PBool False)),
        assign ''num_qubits'' (attr lib (name ''qubitOp'') ''num_qubits'')])"

definition cell_backend_statevector :: "library \<Rightarrow> unit prog" where
  "cell_backend_statevector lib =
     if_stmt (py_not (name ''qasm'')) (block
       [assign ''sv_simulator''
          (call_method lib ''Aer.get_backend'' (name ''Aer'') [lit (PStr ''statevector_simulator'')] []),
        assign ''quantum_instance'' (invoke lib ''QuantumInstance'' [name ''sv_simulator''] []),
        assign ''sv_mode'' (lit (PBool True)),
        assign ''num_qubits'' (attr lib (name ''qubitOp'') ''num_qubits'')])"

text \<open>Step 4: the solver and what is reported of its result.\<close>

definition cell_vqe :: "library \<Rightarrow> unit prog" where
  "cell_vqe lib =
     assign ''vqe'' (invoke lib ''VQE'' [name ''qubitOp'', name ''var_form'', name ''optimizer''] [])"

definition cell_run :: "library \<Rightarrow> unit prog" where
  "cell_run lib = block
     [assign ''results'' (call_method lib ''vqe.run'' (name ''vqe'') [name ''quantum_instance''] []),
      print_fmt ''The computed ground state energy is: {:.12f}''
        [subscr (subscr (name ''results'') (lit (PStr ''eigvals''))) (lit (PInt 0))],
      print_fmt ''The total ground state energy is: {:.12f}''
        [binop py_add
           (subscr (subscr (name ''results'') (lit (PStr ''eigvals''))) (lit (PInt 0)))
           (name ''nuclear_repulsion_energy'')],
      print_fmt ''Parameters: {}'' [subscr (name ''results'') (lit (PStr ''opt_params''))]]"

definition cell_circuit :: "library \<Rightarrow> unit prog" where
  "cell_circuit lib = block
     [assign ''circuit''
        (call_method lib ''vqe.construct_circuit'' (name ''vqe'') []
           [(''statevector_mode'', name ''sv_mode''),
            (''parameter'', subscr (name ''results'') (lit (PStr ''opt_params'')))]),
      display
        (call_method lib ''circuit[0].draw'' (subscr (name ''circuit'') (lit (PInt 0))) []
           [(''output'', lit (PStr ''mpl''))])]"

text \<open>The time evolution: one circuit for the whole horizon, then the sweep.\<close>

definition evolve_call :: "library \<Rightarrow> pyval prog \<Rightarrow> pyval prog" where
  "evolve_call lib t =
     call_method lib ''qubitOp.evolve'' (name ''qubitOp'') []
       [(''state_in'', name ''initial_circuit''),
        (''evo_time'', t),
        (''evo_mode'', lit (PStr ''circuit'')),
        (''num_time_slices'', name ''num_time_slices''),
        (''expansion_mode'', lit (PStr ''trotter''))]"

definition cell_evolution :: "library \<Rightarrow> config \<Rightarrow> unit prog" where
  "cell_evolution lib cfg = block
     [assign ''evolution_time'' (lit (PInt (cfg_evolution_time cfg))),
      assign ''num_time_slices'' (lit (PInt 10)),
      assign ''qr'' (invoke lib ''QuantumRegister'' [name ''num_qubits'', lit (PStr ''q'')] []),
      assign ''initial_circuit''
        (call_method lib ''HF_state.construct_circuit'' (name ''HF_state'') []
           [(''mode'', lit (PStr ''circuit''))]),
      assign ''evolution_circuit'' (evolve_call lib (name ''evolution_time'')),
      display
        (call_method lib ''evolution_circuit.draw'' (name ''evolution_circuit'') []
           [(''output'', lit (PStr ''mpl''))])]"

definition sweep_body :: "library \<Rightarrow> unit prog" where
  "sweep_body lib = block
     [assign ''evolution_circuit'' (evolve_call lib (name ''evo_t'')),
      assign ''result''
        (call_method lib ''quantum_instance.execute'' (name ''quantum_instance'')
           [name ''evolution_circuit''] []),
      assign_row ''statevector_of_t'' (name ''evo_t'')
        (call_method lib ''np.asarray'' (name ''np'')
           [call_method lib ''result.get_statevector'' (name ''result'') [name ''evolution_circuit''] []]
           [])]"

definition column :: "int \<Rightarrow> pyval prog" where
  "column j = binop np_col (name ''statevector_of_t'') (lit (PInt j))"

definition abs_column :: "library \<Rightarrow> int \<Rightarrow> pyval prog" where
  "abs_column lib j = call_method lib ''np.abs'' (name ''np'') [column j] []"

definition plot_figure :: "library \<Rightarrow> int \<Rightarrow> (int \<Rightarrow> pyval prog) \<Rightarrow> string \<Rightarrow> unit prog" where
  "plot_figure lib k col ylabel = block
     [expr_stmt (call_method lib ''plt.figure'' (name ''plt'') [lit (PInt k)] []),
      expr_stmt
        (call_method lib ''plt.plot'' (name ''plt'')
           [name ''t'', col 0, lit (PStr ''-r''), name ''t'', col 1, lit (PStr ''-b''),
            name ''t'', col 2, lit (PStr ''-g''), name ''t'', col 3, lit (PStr ''-y'')] []),
      expr_stmt (call_method lib ''plt.xlabel'' (name ''plt'') [lit (PStr ''time of evolution'')] []),
      expr_stmt (call_method lib ''plt.ylabel'' (name ''plt'') [lit (PStr ylabel)] []),
      expr_stmt (call_method lib ''plt.show'' (name ''plt'') [] [])]"

definition cell_sweep :: "library \<Rightarrow> unit prog" where
  "cell_sweep lib = block
     [assign ''max_time'' (name ''evolution_time''),
      assign ''statevector_of_t''
        (bindP (name ''np'') (\<lambda>np.
           binop np_zeros (name ''max_time'') (binop py_mul (lit (PInt 2)) (name ''num_qubits'')))),
      for_range ''evo_t'' (name ''max_time'') (sweep_body lib),
      assign ''t''
        (call_method lib ''np.linspace'' (name ''np'')
           [lit (PInt 0), binop py_sub (name ''max_time'') (lit (PInt 1)), name ''max_time''] []),
      plot_figure lib 1 column ''Re(Statevector[i])'',
      plot_figure lib 2 (abs_column lib) ''|Statevector[i]|'']"

subsection \<open>The run\<close>

text \<open>
  The cells in the order of the notebook. A run executes them from the first on and stops
  at the first exception, which it reports with the cell that raised it.
\<close>

definition notebook :: "library \<Rightarrow> config \<Rightarrow> (string \<times> unit prog) list" where
  "notebook lib cfg =
     [(''imports'', cell_imports lib),
      (''molecule'', cell_molecule lib),
      (''map_type'', cell_map_type cfg),
      (''fermionic'', cell_fermionic lib),
      (''mapping'', cell_mapping lib),
      (''optimizer'', cell_optimizer lib),
      (''hartree_fock'', cell_hartree_fock lib),
      (''var_form'', cell_var_form lib),
      (''qasm'', cell_qasm cfg),
      (''backend_qasm'', cell_backend_qasm lib),
      (''backend_statevector'', cell_backend_statevector lib),
      (''vqe'', cell_vqe lib),
      (''run'', cell_run lib),
      (''circuit'', cell_circuit lib),
      (''evolution'', cell_evolution lib cfg),
      (''sweep'', cell_sweep lib)]"

fun run_cells :: "(string \<times> unit prog) list \<Rightarrow> state \<Rightarrow> (string \<times> error) option \<times> state" where
  "run_cells [] s = (None, s)"
| "run_cells ((c, m) # cs) s =
     (case m s of
        (Inl e, s') \<Rightarrow> (Some (c, e), s')
      | (Inr u, s') \<Rightarrow> run_cells cs s')"

definition run :: "library \<Rightarrow> config \<Rightarrow> (string \<times> error) option \<times> state" where
  "run lib cfg = run_cells (notebook lib cfg) init_state"

subsection \<open>A library with fixed answers\<close>

text \<open>
  A stand-in for the libraries, used to run the notebook on concrete answers: a molecule
  with two electrons in two orbitals, a qubit operator on two qubits, a solver result
  with one eigenvalue, and a backend whose statevector has a complex amplitude.
\<close>

definition stub_attr :: "string \<Rightarrow> pyval \<Rightarrow> outcome" where
  "stub_attr a v =
     (if a = ''num_alpha'' then Returns (PInt 1)
      else if a = ''num_beta'' then Returns (PInt 1)
      else if a = ''num_orbitals'' then Returns (PInt 2)
      else if a = ''num_qubits'' then Returns (PInt 2)
      else if a = ''nuclear_repulsion_energy'' then Returns (PFloat (1 / 3))
      else if a = ''hf_energy'' then Returns (PFloat (- 1 / 2))
      else Returns (PObj 0))"

definition stub_call :: "event list \<Rightarrow> string \<Rightarrow> pyval list \<Rightarrow> (string \<times> pyval) list \<Rightarrow> outcome" where
  "stub_call h f args kws =
     (if f = ''vqe.run''
      then Returns (PDict [(''eigvals'', PFloatVec [- 1]), (''opt_params'', PFloatVec [0, 0, 0])])
      else if f = ''vqe.construct_circuit'' then Returns (PList [PObj 1])
      else if f = ''result.get_statevector''
      then Returns (PComplexArr [0, Complex (3 / 5) (- 4 / 5), 0, 0])
      else if f = ''np.asarray''
      then (case args of [np, v] \<Rightarrow> Returns v | u \<Rightarrow> Raises ''TypeError'')
      else Returns (PObj 0))"

definition stub_library :: library where
  "stub_library = \<lparr>attr_of = stub_attr, call_of = stub_call\<rparr>"

text \<open>The notebook with the backend switch turned to the exact simulator and a short sweep.\<close>

definition exact_config :: config where
  "exact_config = \<lparr>cfg_map_type = ''parity'', cfg_qasm = False, cfg_evolution_time = 2\<rparr>"

section \<open>Frames: what a cell can change\<close>

text \<open>
  The label of an event: the callee of a call, the format string of a printed line.
\<close>

fun label :: "event \<Rightarrow> string" where
  "label (Call f args kws r) = f"
| "label (Print fmt vs) = fmt"
| "label (Display v) = ''display''"

text \<open>
  \<open>footprint W L m\<close>: the statement \<open>m\<close> binds no name outside \<open>W\<close>, unbinds no name,
  and only appends events whose labels are in \<open>L\<close> to the trace.
\<close>

definition footprint :: "string list \<Rightarrow> string list \<Rightarrow> 'a prog \<Rightarrow> bool" where
  "footprint W L m =
     (\<forall>s. (\<forall>n. n \<notin> set W \<longrightarrow> globals (snd (m s)) n = globals s n) \<and>
          (\<forall>n. globals s n \<noteq> None \<longrightarrow> globals (snd (m s)) n \<noteq> None) \<and>
          (\<exists>evs. trace (snd (m s)) = trace s @ evs \<and> list_all (\<lambda>e. label e \<in> set L) evs))"

text \<open>The events of a trace with a given label.\<close>

definition events_of :: "string \<Rightarrow> event list \<Rightarrow> event list" where
  "events_of l tr = filter (\<lambda>e. label e = l) tr"

definition same_on :: "string list \<Rightarrow> string list \<Rightarrow> state \<Rightarrow> state \<Rightarrow> bool" where
  "same_on ns ls s s' =
     (list_all (\<lambda>n. globals s' n = globals s n) ns \<and>
      list_all (\<lambda>l. events_of l (trace s') = events_of l (trace s)) ls)"

definition frame_ok :: "string list \<Rightarrow> string list \<Rightarrow> 'a prog \<Rightarrow> bool" where
  "frame_ok ns ls m =
     (\<forall>s. same_on ns ls s (snd (m s)) \<and>
          (\<forall>n. globals s n \<noteq> None \<longrightarrow> globals (snd (m s)) n \<noteq> None))"


subsection \<open>Cells and labels of the stages\<close>

text \<open>
  The cells up to the backend switch, and the labels of everything the cells after the
  backend setup call or print (solver, circuit drawing, time evolution, plots).
\<close>

definition setup_cells :: "string list" where
  "setup_cells = [''imports'', ''molecule'', ''map_type'', ''fermionic'', ''mapping'', ''optimizer'',
     ''hartree_fock'', ''var_form'', ''qasm'']"

definition solver_labels :: "string list" where
  "solver_labels = [''VQE'', ''vqe.run'', ''The computed ground state energy is: {:.12f}'',
     ''The total ground state energy is: {:.12f}'', ''Parameters: {}'', ''vqe.construct_circuit'',
     ''circuit[0].draw'', ''QuantumRegister'', ''HF_state.construct_circuit'', ''qubitOp.evolve'',
     ''evolution_circuit.draw'', ''quantum_instance.execute'', ''result.get_statevector'',
     ''np.asarray'', ''np.linspace'', ''np.abs'', ''plt.figure'', ''plt.plot'', ''plt.xlabel'',
     ''plt.ylabel'', ''plt.show'']"

text \<open>
  A state in which nothing after the backend setup has happened and the names \<^verbatim>\<open>noise\<close>,
  \<^verbatim>\<open>qubit_mapper\<close> and \<^verbatim>\<open>sv_simulator\<close> are unbound.
\<close>

definition quiet :: "state \<Rightarrow> bool" where
  "quiet s =
     (globals s ''noise'' = None \<and> globals s ''qubit_mapper'' = None \<and>
      globals s ''sv_simulator'' = None \<and>
      list_all (\<lambda>l. events_of l (trace s) = []) solver_labels)"


subsection \<open>Stored data\<close>

text \<open>
  The one call of the notebook that exists to store something outside the running
  process: \<^verbatim>\<open>IBMQ.save_account\<close> writes the credential to the user's Qiskit configuration
  file (the notebook's own text says to use it ``to store'' the token). Every other event
  of a run is a computation in a library, a printed line, a displayed value or a plot.
\<close>

definition persists :: "event \<Rightarrow> bool" where
  "persists e = (label e = ''IBMQ.save_account'')"

subsection \<open>Observing one cell\<close>

text \<open>The events a statement appends to the trace when it is run from a state.\<close>

definition new_events :: "'a prog \<Rightarrow> state \<Rightarrow> event list" where
  "new_events m s = drop (length (trace s)) (trace (snd (m s)))"

text \<open>
  A state as the cells before the mapping cell leave it: the mapping type chosen, a
  fermionic operator and the particle count.
\<close>

definition before_mapping :: "string \<Rightarrow> state" where
  "before_mapping m =
     \<lparr>globals = [''map_type'' \<mapsto> PStr m, ''ferOp'' \<mapsto> PObj 1, ''num_particles'' \<mapsto> PInt 2],
      trace = []\<rparr>"

text \<open>The value a call returned, if it returned.\<close>

fun returned :: "outcome \<Rightarrow> pyval option" where
  "returned (Raises x) = None"
| "returned (Returns v) = Some v"

subsection \<open>Qubit counts of Hamiltonian, initial state and ansatz\<close>

text \<open>
  What a trace says about the three constructor calls. Either none of them has happened;
  or \<^verbatim>\<open>HartreeFock\<close> was called once, with first argument the \<^verbatim>\<open>num_qubits\<close> of the operator
  bound to \<^verbatim>\<open>qubitOp\<close>, and then either \<^verbatim>\<open>UCCSD\<close> has not been called, or it was called once
  with that same number and with the object that \<^verbatim>\<open>HartreeFock\<close> returned as
  \<^verbatim>\<open>initial_state\<close>, and then either \<^verbatim>\<open>VQE\<close> has not been called, or it was called once
  with the operator bound to \<^verbatim>\<open>qubitOp\<close> and the object that \<^verbatim>\<open>UCCSD\<close> returned.
\<close>

definition agree_on_qubits :: "library \<Rightarrow> state \<Rightarrow> bool" where
  "agree_on_qubits lib s =
     ((events_of ''HartreeFock'' (trace s) = [] \<and> events_of ''UCCSD'' (trace s) = [] \<and>
       events_of ''VQE'' (trace s) = []) \<or>
      (\<exists>q n c rest a.
         globals s ''qubitOp'' = Some q \<and> attr_of lib ''num_qubits'' q = Returns n \<and>
         events_of ''HartreeFock'' (trace s) = [Call ''HartreeFock'' (c # n # rest) [] a] \<and>
         ((events_of ''UCCSD'' (trace s) = [] \<and> events_of ''VQE'' (trace s) = []) \<or>
          (\<exists>h c' kws a'.
             a = Returns h \<and>
             events_of ''UCCSD'' (trace s) = [Call ''UCCSD'' [c', n] kws a'] \<and>
             map_of kws ''initial_state'' = Some h \<and>
             (events_of ''VQE'' (trace s) = [] \<or>
              (\<exists>v c'' opt a''.
                 a' = Returns v \<and>
                 events_of ''VQE'' (trace s) = [Call ''VQE'' [c'', q, v, opt] [] a'']))))))"


subsection \<open>The result record\<close>

definition total_fmt :: string where
  "total_fmt = ''The total ground state energy is: {:.12f}''"

text \<open>
  What a trace and the namespace say about the solver's result. Either the solver has not
  been called, \<^verbatim>\<open>results\<close> is unbound and no total energy has been printed; or the solver
  was called once, \<^verbatim>\<open>results\<close> is bound to what it returned (unbound if it raised), and
  the total energy has been printed at most once, as the sum of \<^verbatim>\<open>results['eigvals'][0]\<close>
  and the \<^verbatim>\<open>nuclear_repulsion_energy\<close> attribute of the molecule.
\<close>

definition result_record :: "library \<Rightarrow> state \<Rightarrow> bool" where
  "result_record lib s =
     ((events_of ''vqe.run'' (trace s) = [] \<and> globals s ''results'' = None \<and>
       events_of total_fmt (trace s) = []) \<or>
      (\<exists>c qi a.
         events_of ''vqe.run'' (trace s) = [Call ''vqe.run'' [c, qi] [] a] \<and>
         globals s ''results'' = returned a \<and>
         (events_of total_fmt (trace s) = [] \<or>
          (\<exists>res ev e mol nre v.
             a = Returns res \<and>
             subscript res (PStr ''eigvals'') = Inr ev \<and> subscript ev (PInt 0) = Inr e \<and>
             globals s ''molecule'' = Some mol \<and>
             attr_of lib ''nuclear_repulsion_energy'' mol = Returns nre \<and>
             py_add e nre = Inr v \<and>
             events_of total_fmt (trace s) = [Print total_fmt [v]]))))"


subsection \<open>Bound names and faults of the libraries\<close>

text \<open>All the names of a list are bound.\<close>

definition bound :: "string list \<Rightarrow> state \<Rightarrow> bool" where
  "bound ns s = list_all (\<lambda>n. globals s n \<noteq> None) ns"

text \<open>
  An exception that comes from a library: a call or an attribute read that raised, or a
  TypeError of the notebook's arithmetic on a value of the wrong kind that a library
  returned.
\<close>

fun library_fault :: "error \<Rightarrow> bool" where
  "library_fault (External f x) = True"
| "library_fault (TypeError m) = True"
| "library_fault (NameError n) = False"
| "library_fault (ValueError m) = False"
| "library_fault (IndexError m) = False"
| "library_fault (KeyError k) = False"

subsection \<open>The branch of the noisy simulator\<close>

text \<open>
  The library calls and attribute reads of the \<^verbatim>\<open>if qasm:\<close> branch that come before its
  first use of \<^verbatim>\<open>noise\<close>, and those between that use and the use of \<^verbatim>\<open>qubit_mapper\<close>.
\<close>

definition backend_calls :: "string list" where
  "backend_calls = [''Aer.get_backend'', ''IBMQ.save_account'', ''IBMQ.load_accounts'',
     ''IBMQ.backends'', ''least_busy'', ''QuantumInstance'', ''device.properties'',
     ''device.configuration'', ''coupling_map'']"

definition noise_calls :: "string list" where
  "noise_calls = [''device'', ''noise.device.basic_device_noise_model'', ''basis_gates'']"

text \<open>
  The start of a session in which \<^verbatim>\<open>noise\<close> has been imported by hand, and a state in which
  the backend switch is set and the names the branch needs are bound, \<^verbatim>\<open>noise\<close> among them.
\<close>

definition noise_imported :: state where
  "noise_imported = init_state\<lparr>globals := (globals init_state)(''noise'' \<mapsto> PImported ''noise'')\<rparr>"

definition with_noise :: state where
  "with_noise =
     \<lparr>globals = [''qasm'' \<mapsto> PBool True, ''Aer'' \<mapsto> PImported ''Aer'',
        ''IBMQ'' \<mapsto> PImported ''IBMQ'', ''least_busy'' \<mapsto> PImported ''least_busy'',
        ''QuantumInstance'' \<mapsto> PImported ''QuantumInstance'', ''noise'' \<mapsto> PImported ''noise''],
      trace = []\<rparr>"

section \<open>Frame lemmas\<close>

lemma footprintI:
  assumes "\<And>s n. n \<notin> set W \<Longrightarrow> globals (snd (m s)) n = globals s n"
    and "\<And>s n. globals s n \<noteq> None \<Longrightarrow> globals (snd (m s)) n \<noteq> None"
    and "\<And>s. \<exists>evs. trace (snd (m s)) = trace s @ evs \<and> list_all (\<lambda>e. label e \<in> set L) evs"
  shows "footprint W L m"
  using assms unfolding footprint_def by blast

lemma fp_ret: "footprint W L (ret a)"
  by (simp add: footprint_def ret_def)

lemma fp_raise: "footprint W L (raise e)"
  by (simp add: footprint_def raise_def)

lemma fp_lift: "footprint W L (lift r)"
  by (cases r) (simp_all add: lift_def fp_ret fp_raise)

lemma fp_name: "footprint W L (name n)"
  by (simp add: footprint_def name_def split: option.splits)

lemma fp_lit: "footprint W L (lit v)"
  by (simp add: lit_def fp_ret)

lemma fp_bind_name: "n \<in> set W \<Longrightarrow> footprint W L (bind_name n v)"
  by (auto simp add: footprint_def bind_name_def)

lemma fp_emit: "label ev \<in> set L \<Longrightarrow> footprint W L (emit ev)"
  by (simp add: footprint_def emit_def)

lemma fp_extern: "f \<in> set L \<Longrightarrow> footprint W L (extern lib f a k)"
  by (simp add: footprint_def extern_def Let_def split: outcome.splits)

lemma fp_bind:
  assumes m: "footprint W L m" and f: "\<And>a. footprint W L (f a)"
  shows "footprint W L (bindP m f)"
proof (rule footprintI)
  fix s n
  assume n: "n \<notin> set W"
  show "globals (snd (bindP m f s)) n = globals s n"
  proof (cases "m s")
    case (Pair r s')
    have g: "globals s' n = globals s n"
      using m n Pair unfolding footprint_def by (metis snd_conv)
    show ?thesis
    proof (cases r)
      case (Inl e)
      with Pair g show ?thesis by (simp add: bindP_def)
    next
      case (Inr a)
      have "globals (snd (f a s')) n = globals s' n"
        using f [of a] n unfolding footprint_def by blast
      with Pair Inr g show ?thesis by (simp add: bindP_def)
    qed
  qed
next
  fix s :: state and n
  assume n: "globals s n \<noteq> None"
  show "globals (snd (bindP m f s)) n \<noteq> None"
  proof (cases "m s")
    case (Pair r s')
    have g: "globals s' n \<noteq> None"
      using m n Pair unfolding footprint_def by (metis snd_conv)
    show ?thesis
    proof (cases r)
      case (Inl e)
      with Pair g show ?thesis by (simp add: bindP_def)
    next
      case (Inr a)
      have "globals (snd (f a s')) n \<noteq> None"
        using f [of a] g unfolding footprint_def by blast
      with Pair Inr show ?thesis by (simp add: bindP_def)
    qed
  qed
next
  fix s
  show "\<exists>evs. trace (snd (bindP m f s)) = trace s @ evs \<and> list_all (\<lambda>e. label e \<in> set L) evs"
  proof (cases "m s")
    case (Pair r s')
    obtain evs where evs: "trace s' = trace s @ evs" "list_all (\<lambda>e. label e \<in> set L) evs"
      using m Pair unfolding footprint_def by (metis snd_conv)
    show ?thesis
    proof (cases r)
      case (Inl e)
      with Pair evs show ?thesis by (auto simp add: bindP_def)
    next
      case (Inr a)
      obtain evs' where evs': "trace (snd (f a s')) = trace s' @ evs'"
          "list_all (\<lambda>e. label e \<in> set L) evs'"
        using f [of a] unfolding footprint_def by blast
      have "trace (snd (bindP m f s)) = trace s @ (evs @ evs')"
        using Pair Inr evs evs' by (simp add: bindP_def)
      moreover have "list_all (\<lambda>e. label e \<in> set L) (evs @ evs')"
        using evs evs' by simp
      ultimately show ?thesis by blast
    qed
  qed
qed

lemma fp_then: "footprint W L m \<Longrightarrow> footprint W L n \<Longrightarrow> footprint W L (thenP m n)"
  by (simp add: thenP_def fp_bind)

lemma fp_block_Nil: "footprint W L (block [])"
  by (simp add: fp_ret)

lemma fp_block_Cons: "footprint W L m \<Longrightarrow> footprint W L (block ms) \<Longrightarrow> footprint W L (block (m # ms))"
  by (simp add: fp_then)

lemma fp_evals_Nil: "footprint W L (evals [])"
  by (simp add: fp_ret)

lemma fp_evals_Cons: "footprint W L e \<Longrightarrow> footprint W L (evals es) \<Longrightarrow> footprint W L (evals (e # es))"
  by (simp add: fp_bind fp_ret)

lemma fp_evalkw_Nil: "footprint W L (evalkw [])"
  by (simp add: fp_ret)

lemma fp_evalkw_Cons:
  "footprint W L e \<Longrightarrow> footprint W L (evalkw es) \<Longrightarrow> footprint W L (evalkw ((k, e) # es))"
  by (simp add: fp_bind fp_ret)

lemma fp_assign: "n \<in> set W \<Longrightarrow> footprint W L e \<Longrightarrow> footprint W L (assign n e)"
  by (simp add: assign_def fp_bind fp_bind_name)

lemma fp_invoke:
  "f \<in> set L \<Longrightarrow> footprint W L (evals args) \<Longrightarrow> footprint W L (evalkw kws) \<Longrightarrow>
   footprint W L (invoke lib f args kws)"
  by (simp add: invoke_def fp_bind fp_name fp_extern)

lemma fp_call_method:
  "l \<in> set L \<Longrightarrow> footprint W L r \<Longrightarrow> footprint W L (evals args) \<Longrightarrow> footprint W L (evalkw kws) \<Longrightarrow>
   footprint W L (call_method lib l r args kws)"
  by (simp add: call_method_def fp_bind fp_extern)

lemma fp_attr: "footprint W L r \<Longrightarrow> footprint W L (attr lib r a)"
  by (auto simp add: attr_def fp_ret fp_raise intro!: fp_bind split: outcome.splits)

lemma fp_expr_stmt: "footprint W L e \<Longrightarrow> footprint W L (expr_stmt e)"
  by (simp add: expr_stmt_def fp_bind fp_ret)

lemma fp_display: "''display'' \<in> set L \<Longrightarrow> footprint W L e \<Longrightarrow> footprint W L (display e)"
  by (simp add: display_def fp_bind fp_emit)

lemma fp_print_fmt: "fmt \<in> set L \<Longrightarrow> footprint W L (evals es) \<Longrightarrow> footprint W L (print_fmt fmt es)"
  by (simp add: print_fmt_def fp_bind fp_emit)

lemma fp_binop: "footprint W L a \<Longrightarrow> footprint W L b \<Longrightarrow> footprint W L (binop f a b)"
  by (simp add: binop_def fp_bind fp_lift)

lemma fp_equals: "footprint W L a \<Longrightarrow> footprint W L b \<Longrightarrow> footprint W L (equals a b)"
  by (simp add: equals_def fp_bind fp_ret)

lemma fp_if_exp:
  "footprint W L a \<Longrightarrow> footprint W L c \<Longrightarrow> footprint W L b \<Longrightarrow> footprint W L (if_exp a c b)"
  by (simp add: if_exp_def fp_bind fp_lift)

lemma fp_if_stmt: "footprint W L c \<Longrightarrow> footprint W L body \<Longrightarrow> footprint W L (if_stmt c body)"
  by (simp add: if_stmt_def fp_bind fp_lift fp_ret)

lemma fp_py_not: "footprint W L e \<Longrightarrow> footprint W L (py_not e)"
  by (simp add: py_not_def fp_bind fp_lift fp_ret)

lemma fp_subscr: "footprint W L e \<Longrightarrow> footprint W L k \<Longrightarrow> footprint W L (subscr e k)"
  by (simp add: subscr_def fp_bind fp_lift)

lemma fp_for_each:
  "x \<in> set W \<Longrightarrow> footprint W L body \<Longrightarrow> footprint W L (for_each x vs body)"
  by (induction vs) (simp_all add: fp_ret fp_then fp_bind_name)

lemma fp_for_range:
  "x \<in> set W \<Longrightarrow> footprint W L e \<Longrightarrow> footprint W L body \<Longrightarrow> footprint W L (for_range x e body)"
  by (simp add: for_range_def fp_bind fp_lift fp_for_each)

lemma fp_assign_row:
  "a \<in> set W \<Longrightarrow> footprint W L i \<Longrightarrow> footprint W L e \<Longrightarrow> footprint W L (assign_row a i e)"
  by (simp add: assign_row_def fp_bind fp_lift fp_name fp_bind_name)

lemma fp_bind_imports: "set ns \<subseteq> set W \<Longrightarrow> footprint W L (bind_imports ns)"
  by (induction ns) (simp_all add: fp_ret fp_then fp_bind_name)

lemma fp_import_from:
  "''import'' \<in> set L \<Longrightarrow> set ns \<subseteq> set W \<Longrightarrow> footprint W L (import_from lib m ns)"
  by (simp add: import_from_def fp_bind fp_extern fp_bind_imports)

lemmas fp_rules =
  fp_ret fp_raise fp_lift fp_name fp_lit fp_bind_name fp_emit fp_extern fp_then
  fp_block_Nil fp_block_Cons fp_evals_Nil fp_evals_Cons fp_evalkw_Nil fp_evalkw_Cons
  fp_assign fp_invoke fp_call_method fp_attr fp_expr_stmt fp_display fp_print_fmt fp_binop
  fp_equals fp_if_exp fp_if_stmt fp_py_not fp_subscr fp_for_range fp_assign_row fp_import_from


lemma events_of_append: "events_of l (xs @ ys) = events_of l xs @ events_of l ys"
  by (simp add: events_of_def)

lemma events_of_other:
  "list_all (\<lambda>e. label e \<in> set L) evs \<Longrightarrow> l \<notin> set L \<Longrightarrow> events_of l evs = []"
  by (induction evs) (auto simp add: events_of_def)

lemma frame_okI:
  assumes fp: "footprint W L m" and ns: "set ns \<inter> set W = {}" and ls: "set ls \<inter> set L = {}"
  shows "frame_ok ns ls m"
  unfolding frame_ok_def same_on_def
proof (intro allI conjI impI)
  fix s
  show "list_all (\<lambda>n. globals (snd (m s)) n = globals s n) ns"
    using fp ns unfolding footprint_def list_all_iff by blast
  obtain evs where evs: "trace (snd (m s)) = trace s @ evs" "list_all (\<lambda>e. label e \<in> set L) evs"
    using fp unfolding footprint_def by blast
  show "list_all (\<lambda>l. events_of l (trace (snd (m s))) = events_of l (trace s)) ls"
    unfolding list_all_iff
  proof
    fix l assume "l \<in> set ls"
    with ls have "l \<notin> set L" by blast
    with evs show "events_of l (trace (snd (m s))) = events_of l (trace s)"
      by (simp add: events_of_append events_of_other)
  qed
next
  fix s :: state and n
  assume "globals s n \<noteq> None"
  with fp show "globals (snd (m s)) n \<noteq> None"
    unfolding footprint_def by blast
qed

lemma fp_cell_imports:
  "footprint [''np'', ''plt'', ''Aer'', ''IBMQ'', ''QuantumRegister'', ''least_busy'', ''Operator'',
      ''QuantumInstance'', ''VQE'', ''ExactEigensolver'', ''COBYLA'', ''SPSA'', ''P_BFGS'', ''RY'',
      ''RYRZ'', ''FermionicOperator'', ''PySCFDriver'', ''UnitsType'', ''UCCSD'', ''HartreeFock'']
     [''import''] (cell_imports lib)"
  unfolding cell_imports_def by (intro fp_rules; simp)

lemma fp_cell_molecule:
  "footprint [''driver'', ''molecule'', ''nuclear_repulsion_energy'', ''num_particles'',
      ''num_spin_orbitals'']
     [''PySCFDriver'', ''driver.run'', ''HF energy: {}'', ''# of electrons: {}'',
      ''# of spin orbitals: {}''] (cell_molecule lib)"
  unfolding cell_molecule_def by (intro fp_rules; simp)

lemma fp_cell_map_type: "footprint [''map_type''] [] (cell_map_type cfg)"
  unfolding cell_map_type_def by (intro fp_rules; simp)

lemma fp_cell_fermionic:
  "footprint [''h1'', ''h2'', ''ferOp''] [''FermionicOperator''] (cell_fermionic lib)"
  unfolding cell_fermionic_def by (intro fp_rules; simp)

lemma fp_cell_mapping:
  "footprint [''qubit_reduction'', ''qubitOp'']
     [''ferOp.mapping'', ''qubitOp.two_qubit_reduced_operator'', ''qubitOp.chop'', ''{}'', ''display'']
     (cell_mapping lib)"
  unfolding cell_mapping_def by (intro fp_rules; simp)

lemma fp_cell_optimizer: "footprint [''max_eval'', ''optimizer''] [''COBYLA''] (cell_optimizer lib)"
  unfolding cell_optimizer_def by (intro fp_rules; simp)

lemma fp_cell_hartree_fock: "footprint [''HF_state''] [''HartreeFock''] (cell_hartree_fock lib)"
  unfolding cell_hartree_fock_def by (intro fp_rules; simp)

lemma fp_cell_var_form: "footprint [''var_form''] [''UCCSD''] (cell_var_form lib)"
  unfolding cell_var_form_def by (intro fp_rules; simp)

lemma fp_cell_qasm: "footprint [''qasm''] [] (cell_qasm cfg)"
  unfolding cell_qasm_def by (intro fp_rules; simp)

lemma fp_cell_backend_qasm:
  "footprint [''qasm_simulator'', ''lb_device'', ''quantum_instance'', ''device'', ''properties'',
      ''coupling_map'', ''noise_model'', ''basis_gates'', ''shots'', ''sv_mode'', ''num_qubits'']
     [''Aer.get_backend'', ''IBMQ.save_account'', ''IBMQ.load_accounts'', ''IBMQ.backends'',
      ''least_busy'', ''{}'', ''QuantumInstance'', ''device.properties'', ''device.configuration'',
      ''noise.device.basic_device_noise_model'']
     (cell_backend_qasm lib)"
  unfolding cell_backend_qasm_def by (intro fp_rules; simp)

lemma fp_cell_backend_statevector:
  "footprint [''sv_simulator'', ''quantum_instance'', ''sv_mode'', ''num_qubits'']
     [''Aer.get_backend'', ''QuantumInstance''] (cell_backend_statevector lib)"
  unfolding cell_backend_statevector_def by (intro fp_rules; simp)

lemma fp_cell_vqe: "footprint [''vqe''] [''VQE''] (cell_vqe lib)"
  unfolding cell_vqe_def by (intro fp_rules; simp)

lemma fp_cell_run:
  "footprint [''results'']
     [''vqe.run'', ''The computed ground state energy is: {:.12f}'',
      ''The total ground state energy is: {:.12f}'', ''Parameters: {}''] (cell_run lib)"
  unfolding cell_run_def by (intro fp_rules; simp)

lemma fp_cell_circuit:
  "footprint [''circuit''] [''vqe.construct_circuit'', ''circuit[0].draw'', ''display'']
     (cell_circuit lib)"
  unfolding cell_circuit_def by (intro fp_rules; simp)

lemma fp_cell_evolution:
  "footprint [''evolution_time'', ''num_time_slices'', ''qr'', ''initial_circuit'', ''evolution_circuit'']
     [''QuantumRegister'', ''HF_state.construct_circuit'', ''qubitOp.evolve'',
      ''evolution_circuit.draw'', ''display''] (cell_evolution lib cfg)"
  unfolding cell_evolution_def evolve_call_def by (intro fp_rules; simp)

lemma fp_cell_sweep:
  "footprint [''max_time'', ''statevector_of_t'', ''evo_t'', ''evolution_circuit'', ''result'', ''t'']
     [''qubitOp.evolve'', ''quantum_instance.execute'', ''result.get_statevector'', ''np.asarray'',
      ''np.linspace'', ''np.abs'', ''plt.figure'', ''plt.plot'', ''plt.xlabel'', ''plt.ylabel'',
      ''plt.show''] (cell_sweep lib)"
  unfolding cell_sweep_def sweep_body_def evolve_call_def plot_figure_def column_def abs_column_def
  by (intro fp_rules fp_bind; simp)

lemmas cell_frames =
  fp_cell_imports [THEN frame_okI] fp_cell_molecule [THEN frame_okI]
  fp_cell_map_type [THEN frame_okI] fp_cell_fermionic [THEN frame_okI]
  fp_cell_mapping [THEN frame_okI] fp_cell_optimizer [THEN frame_okI]
  fp_cell_hartree_fock [THEN frame_okI] fp_cell_var_form [THEN frame_okI]
  fp_cell_qasm [THEN frame_okI] fp_cell_backend_qasm [THEN frame_okI]
  fp_cell_backend_statevector [THEN frame_okI] fp_cell_vqe [THEN frame_okI]
  fp_cell_run [THEN frame_okI] fp_cell_circuit [THEN frame_okI]
  fp_cell_evolution [THEN frame_okI] fp_cell_sweep [THEN frame_okI]

subsection \<open>Running a list of cells\<close>

lemma run_cells_append:
  "run_cells (xs @ ys) s =
     (case run_cells xs s of (Some e, s') \<Rightarrow> (Some e, s') | (None, s') \<Rightarrow> run_cells ys s')"
  by (induction xs arbitrary: s) (auto split: prod.splits sum.splits option.splits)

lemma run_cells_fails_in:
  "run_cells cs s = (Some (c, e), s') \<Longrightarrow> c \<in> set (map fst cs)"
proof (induction cs arbitrary: s)
  case Nil
  then show ?case by simp
next
  case (Cons a cs)
  obtain c0 m where a: "a = (c0, m)" by (cases a)
  obtain r s1 where ms: "m s = (r, s1)" by (cases "m s")
  show ?case
  proof (cases r)
    case (Inl e0)
    with Cons.prems a ms show ?thesis by simp
  next
    case (Inr u)
    with Cons.prems a ms have "run_cells cs s1 = (Some (c, e), s')" by simp
    from Cons.IH [OF this] show ?thesis by simp
  qed
qed

lemma run_cells_preserve:
  assumes cells: "list_all (\<lambda>(c, m). frame_ok ns ls m) cs"
    and cong: "\<And>s s'. same_on ns ls s s' \<Longrightarrow> I s \<Longrightarrow> I s'"
    and init: "I s"
  shows "I (snd (run_cells cs s))"
  using cells init
proof (induction cs arbitrary: s)
  case Nil
  then show ?case by simp
next
  case (Cons a cs)
  obtain c m where a: "a = (c, m)" by (cases a)
  obtain r s1 where ms: "m s = (r, s1)" by (cases "m s")
  from Cons.prems a have "frame_ok ns ls m" by simp
  then have "same_on ns ls s s1" using ms unfolding frame_ok_def by (metis snd_conv)
  then have I1: "I s1" using Cons.prems(2) by (rule cong)
  show ?case
  proof (cases r)
    case (Inl e)
    with a ms I1 show ?thesis by simp
  next
    case (Inr u)
    from Cons.prems a have "list_all (\<lambda>(c, m). frame_ok ns ls m) cs" by simp
    from Cons.IH [OF this I1] a ms Inr show ?thesis by simp
  qed
qed

lemmas prog_defs = ret_def raise_def bindP_def thenP_def lift_def name_def lit_def bind_name_def
  assign_def emit_def extern_def invoke_def call_method_def attr_def expr_stmt_def display_def
  print_fmt_def binop_def equals_def if_exp_def if_stmt_def py_not_def subscr_def for_range_def
  assign_row_def import_from_def

lemma block_append: "block (xs @ ys) = thenP (block xs) (block ys)"
proof (induction xs)
  case Nil
  show ?case by (rule ext) (simp add: thenP_def bindP_def ret_def)
next
  case (Cons m xs)
  then show ?case
    by (simp add: thenP_def) (rule ext, simp add: bindP_def split: prod.splits sum.splits)
qed

lemma fp_block_list: "list_all (footprint W L) ms \<Longrightarrow> footprint W L (block ms)"
  by (induction ms) (simp_all add: fp_ret fp_then)

lemma run_cells_keeps_bound:
  assumes cells: "list_all (\<lambda>(c, m). frame_ok ns ls m) cs" and b: "globals s n \<noteq> None"
  shows "globals (snd (run_cells cs s)) n \<noteq> None"
  using cells b
proof (induction cs arbitrary: s)
  case Nil
  then show ?case by simp
next
  case (Cons a cs)
  obtain c m where a: "a = (c, m)" by (cases a)
  obtain r s1 where ms: "m s = (r, s1)" by (cases "m s")
  from Cons.prems a have "frame_ok ns ls m" by simp
  with Cons.prems(2) ms have b1: "globals s1 n \<noteq> None"
    unfolding frame_ok_def by (metis snd_conv)
  show ?case
  proof (cases r)
    case (Inl e)
    with a ms b1 show ?thesis by simp
  next
    case (Inr u)
    from Cons.prems a have "list_all (\<lambda>(c, m). frame_ok ns ls m) cs" by simp
    from Cons.IH [OF this b1] a ms Inr show ?thesis by simp
  qed
qed

lemma first_imports_bound:
  assumes "block
     [import_from lib ''numpy'' [''np''],
      import_from lib ''matplotlib.pyplot'' [''plt''],
      import_from lib ''qiskit'' [''Aer'', ''IBMQ'', ''QuantumRegister''],
      import_from lib ''qiskit.providers.ibmq'' [''least_busy''],
      import_from lib ''qiskit.aqua'' [''Operator'', ''QuantumInstance'']] s = (Inr (), s')"
  shows "globals s' ''Aer'' \<noteq> None \<and> globals s' ''IBMQ'' \<noteq> None \<and>
         globals s' ''least_busy'' \<noteq> None \<and> globals s' ''QuantumInstance'' \<noteq> None"
  using assms by (auto simp add: prog_defs Let_def split: outcome.splits)

lemma imports_bound:
  assumes ok: "cell_imports lib s = (Inr (), s')"
  shows "globals s' ''Aer'' \<noteq> None \<and> globals s' ''IBMQ'' \<noteq> None \<and>
         globals s' ''least_busy'' \<noteq> None \<and> globals s' ''QuantumInstance'' \<noteq> None"
proof -
  let ?first = "[import_from lib ''numpy'' [''np''],
      import_from lib ''matplotlib.pyplot'' [''plt''],
      import_from lib ''qiskit'' [''Aer'', ''IBMQ'', ''QuantumRegister''],
      import_from lib ''qiskit.providers.ibmq'' [''least_busy''],
      import_from lib ''qiskit.aqua'' [''Operator'', ''QuantumInstance'']]"
  let ?others = "[import_from lib ''qiskit.aqua.algorithms'' [''VQE'', ''ExactEigensolver''],
      import_from lib ''qiskit.aqua.components.optimizers'' [''COBYLA'', ''SPSA'', ''P_BFGS''],
      import_from lib ''qiskit.aqua.components.variational_forms'' [''RY'', ''RYRZ''],
      import_from lib ''qiskit.chemistry'' [''FermionicOperator''],
      import_from lib ''qiskit.chemistry.drivers'' [''PySCFDriver'', ''UnitsType''],
      import_from lib ''qiskit.chemistry.aqua_extensions.components.variational_forms'' [''UCCSD''],
      import_from lib ''qiskit.chemistry.aqua_extensions.components.initial_states'' [''HartreeFock'']]"
  have parts: "cell_imports lib = thenP (block ?first) (block ?others)"
    unfolding cell_imports_def block_append [symmetric] by simp
  obtain r s1 where front: "block ?first s = (r, s1)" by (cases "block ?first s")
  from ok parts front have r: "r = Inr ()" and later: "block ?others s1 = (Inr (), s')"
    by (auto simp add: thenP_def bindP_def split: sum.splits)
  have b1: "globals s1 ''Aer'' \<noteq> None \<and> globals s1 ''IBMQ'' \<noteq> None \<and>
         globals s1 ''least_busy'' \<noteq> None \<and> globals s1 ''QuantumInstance'' \<noteq> None"
    using front r by (intro first_imports_bound) simp
  have "footprint [''VQE'', ''ExactEigensolver'', ''COBYLA'', ''SPSA'', ''P_BFGS'', ''RY'', ''RYRZ'',
      ''FermionicOperator'', ''PySCFDriver'', ''UnitsType'', ''UCCSD'', ''HartreeFock''] [''import'']
      (block ?others)"
    by (intro fp_rules; simp)
  then have "\<And>n. globals s1 n \<noteq> None \<Longrightarrow> globals (snd (block ?others s1)) n \<noteq> None"
    unfolding footprint_def by blast
  with b1 later show ?thesis by simp
qed

lemma backend_qasm_fails:
  assumes "globals s ''qasm'' = Some (PBool True)" and "globals s ''noise'' = None"
    and "globals s ''Aer'' = Some a" and "globals s ''IBMQ'' = Some i"
    and "globals s ''least_busy'' = Some l" and "globals s ''QuantumInstance'' = Some q"
  shows "\<exists>e s'. cell_backend_qasm lib s = (Inl e, s') \<and>
           (e = NameError ''noise'' \<or> (\<exists>f x. e = External f x))"
  using assms unfolding cell_backend_qasm_def
  by (simp add: prog_defs Let_def split: outcome.splits)


subsection \<open>Sequencing\<close>

lemma snd_thenP:
  "snd (thenP m n s) = (case m s of (Inl e, s') \<Rightarrow> s' | (Inr u, s') \<Rightarrow> snd (n s'))"
  by (simp add: thenP_def bindP_def split: prod.splits sum.splits)

lemma run_cells_seq:
  assumes P: "P s"
    and xs: "\<And>s. P s \<Longrightarrow> Q (snd (run_cells xs s))"
    and ys: "\<And>s. Q s \<Longrightarrow> R (snd (run_cells ys s))"
    and QR: "\<And>s. Q s \<Longrightarrow> R s"
  shows "R (snd (run_cells (xs @ ys) s))"
proof -
  obtain r s1 where x: "run_cells xs s = (r, s1)" by (cases "run_cells xs s")
  from xs [OF P] x have q: "Q s1" by simp
  show ?thesis
  proof (cases r)
    case None
    with x ys [OF q] show ?thesis by (simp add: run_cells_append)
  next
    case (Some e)
    with x QR [OF q] show ?thesis by (simp add: run_cells_append)
  qed
qed

lemma block_two: "block (a # b # cs) = thenP (thenP a b) (block cs)"
  by (rule ext) (simp add: thenP_def bindP_def split: prod.splits sum.splits)

lemma footprint_events:
  assumes "footprint W L m" and "l \<notin> set L"
  shows "events_of l (trace (snd (m s))) = events_of l (trace s)"
proof -
  obtain evs where "trace (snd (m s)) = trace s @ evs" "list_all (\<lambda>e. label e \<in> set L) evs"
    using assms(1) unfolding footprint_def by blast
  with assms(2) show ?thesis by (simp add: events_of_append events_of_other)
qed

lemma snd_if_stmt:
  "snd (if_stmt (name n) body s) =
     (case globals s n of
        None \<Rightarrow> s
      | Some v \<Rightarrow> (case truthy v of Inl e \<Rightarrow> s | Inr t \<Rightarrow> if t then snd (body s) else s))"
  by (simp add: if_stmt_def bindP_def name_def lift_def ret_def raise_def
      split: option.splits sum.splits)

lemma snd_if_true:
  "globals s n = Some (PBool True) \<Longrightarrow> snd (if_stmt (name n) body s) = snd (body s)"
  by (simp add: snd_if_stmt)

lemma snd_if_false:
  "globals s n = Some (PBool False) \<Longrightarrow> snd (if_stmt (name n) body s) = s"
  by (simp add: snd_if_stmt)

lemma two_then_rest:
  assumes rest: "footprint W L (block cs)" and l: "l \<notin> set L"
  shows "events_of l (trace (snd (block (a # b # cs) s))) = events_of l (trace (snd (thenP a b s)))"
proof -
  obtain r s1 where ab: "thenP a b s = (r, s1)" by (cases "thenP a b s")
  have eq: "snd (block (a # b # cs) s) =
      (case thenP a b s of (Inl e, s') \<Rightarrow> s' | (Inr u, s') \<Rightarrow> snd (block cs s'))"
    by (simp only: block_two snd_thenP)
  show ?thesis
  proof (cases r)
    case (Inl e)
    with ab show ?thesis unfolding eq by simp
  next
    case (Inr u)
    with ab footprint_events [OF rest l, of s1] show ?thesis unfolding eq by simp
  qed
qed

lemma cell_qasm_run:
  "cell_qasm cfg s = (Inr (), s\<lparr>globals := (globals s)(''qasm'' \<mapsto> PBool (cfg_qasm cfg))\<rparr>)"
  by (simp add: cell_qasm_def assign_def lit_def ret_def bindP_def bind_name_def)


subsection \<open>Unfolding the notebook on concrete answers\<close>

lemmas cell_defs = cell_imports_def cell_molecule_def cell_map_type_def cell_fermionic_def
  cell_mapping_def cell_optimizer_def cell_hartree_fock_def cell_var_form_def cell_qasm_def
  cell_backend_qasm_def cell_backend_statevector_def cell_vqe_def cell_run_def cell_circuit_def
  cell_evolution_def cell_sweep_def sweep_body_def evolve_call_def column_def abs_column_def
  plot_figure_def

lemmas op_defs = py_add_def py_sub_def py_mul_def py_eq_def arith_def index_def subscript_def
  py_range_def np_zeros_def cast_row_def np_setrow_def np_col_def position_def

lemmas stub_defs = stub_library_def stub_call_def stub_attr_def notebook_config_def exact_config_def
  init_state_def

lemma events_of_Nil [simp]: "events_of l [] = []"
  by (simp add: events_of_def)

lemma events_of_Cons [simp]:
  "events_of l (e # es) = (if label e = l then e # events_of l es else events_of l es)"
  by (simp add: events_of_def)

lemma run_cells_single: "snd (run_cells [(c, m)] s) = snd (m s)"
  by (simp split: prod.splits sum.splits)

lemma returned_Some [simp]: "returned a = Some h \<longleftrightarrow> a = Returns h"
  by (cases a) simp_all

lemma returned_None [simp]: "returned a = None \<longleftrightarrow> (\<exists>x. a = Raises x)"
  by (cases a) simp_all

lemma footprint_globals:
  "footprint W L m \<Longrightarrow> n \<notin> set W \<Longrightarrow> globals (snd (m s)) n = globals s n"
  unfolding footprint_def by blast


subsection \<open>Bound names along a run\<close>

lemma bound_Nil: "bound [] s"
  by (simp add: bound_def)

lemma bound_subset: "bound xs s \<Longrightarrow> set ys \<subseteq> set xs \<Longrightarrow> bound ys s"
  by (auto simp add: bound_def list_all_iff)

lemma bound_append: "bound (xs @ ys) s \<longleftrightarrow> bound xs s \<and> bound ys s"
  by (simp add: bound_def)

lemma footprint_bound: "footprint W L m \<Longrightarrow> bound ns s \<Longrightarrow> bound ns (snd (m s))"
  unfolding footprint_def bound_def list_all_iff by blast

lemma run_cells_advance:
  assumes fp: "footprint W L m"
    and cell: "\<And>s. bound need s \<Longrightarrow>
       (case m s of (r, s') \<Rightarrow>
          (r = Inr () \<and> bound new s') \<or> (\<exists>e. r = Inl e \<and> library_fault e))"
    and old: "bound old s"
    and sub: "set need \<subseteq> set old"
    and rest: "\<And>s'. bound (new @ old) s' \<Longrightarrow>
       (case run_cells cs s' of (None, s'') \<Rightarrow> Q s'' | (Some (c, e), s'') \<Rightarrow> library_fault e)"
  shows "case run_cells ((c0, m) # cs) s of
           (None, s'') \<Rightarrow> Q s'' | (Some (c, e), s'') \<Rightarrow> library_fault e"
proof -
  obtain r s1 where ms: "m s = (r, s1)" by (cases "m s")
  from cell [OF bound_subset [OF old sub]] ms
  have c: "(r = Inr () \<and> bound new s1) \<or> (\<exists>e. r = Inl e \<and> library_fault e)" by simp
  from footprint_bound [OF fp old] ms have o: "bound old s1" by simp
  from c show ?thesis
  proof
    assume a: "r = Inr () \<and> bound new s1"
    with o have "bound (new @ old) s1" by (simp add: bound_append)
    from rest [OF this] a ms show ?thesis by simp
  next
    assume "\<exists>e. r = Inl e \<and> library_fault e"
    with ms show ?thesis by auto
  qed
qed

lemma bindP_weak_cong: "m = m' \<Longrightarrow> bindP m f = bindP m' f"
  by simp


section \<open>What a run stores\<close>

lemma filter_persists: "filter persists tr = events_of ''IBMQ.save_account'' tr"
  by (induction tr) (simp_all add: events_of_def persists_def)

lemma account_statements:
  assumes ev: "events_of ''IBMQ.save_account'' (trace s) = []"
  shows "events_of ''IBMQ.save_account'' (trace (snd (thenP
      (assign ''qasm_simulator''
         (call_method lib ''Aer.get_backend'' (name ''Aer'') [lit (PStr ''qasm_simulator'')] []))
      (expr_stmt
         (call_method lib ''IBMQ.save_account'' (name ''IBMQ'') [lit (PStr account_token)]
            [(''overwrite'', lit (PBool True))])) s))) = [] \<or>
     (\<exists>v r. events_of ''IBMQ.save_account'' (trace (snd (thenP
      (assign ''qasm_simulator''
         (call_method lib ''Aer.get_backend'' (name ''Aer'') [lit (PStr ''qasm_simulator'')] []))
      (expr_stmt
         (call_method lib ''IBMQ.save_account'' (name ''IBMQ'') [lit (PStr account_token)]
            [(''overwrite'', lit (PBool True))])) s))) =
        [Call ''IBMQ.save_account'' [v, PStr account_token] [(''overwrite'', PBool True)] r])"
  using ev
  by (auto simp add: prog_defs Let_def events_of_def split: outcome.splits option.splits)

lemma save_cell_generic:
  assumes rest: "footprint W L (block cs)" and l: "''IBMQ.save_account'' \<notin> set L"
    and ev: "events_of ''IBMQ.save_account'' (trace s) = []"
    and q: "globals s ''qasm'' = Some (PBool b)"
  shows "events_of ''IBMQ.save_account'' (trace (snd (if_stmt (name ''qasm'') (block
      (assign ''qasm_simulator''
         (call_method lib ''Aer.get_backend'' (name ''Aer'') [lit (PStr ''qasm_simulator'')] []) #
       expr_stmt
         (call_method lib ''IBMQ.save_account'' (name ''IBMQ'') [lit (PStr account_token)]
            [(''overwrite'', lit (PBool True))]) # cs)) s))) = [] \<or>
     (b \<and> (\<exists>v r. events_of ''IBMQ.save_account'' (trace (snd (if_stmt (name ''qasm'') (block
      (assign ''qasm_simulator''
         (call_method lib ''Aer.get_backend'' (name ''Aer'') [lit (PStr ''qasm_simulator'')] []) #
       expr_stmt
         (call_method lib ''IBMQ.save_account'' (name ''IBMQ'') [lit (PStr account_token)]
            [(''overwrite'', lit (PBool True))]) # cs)) s))) =
        [Call ''IBMQ.save_account'' [v, PStr account_token] [(''overwrite'', PBool True)] r]))"
proof (cases b)
  case False
  with ev q show ?thesis by (simp add: snd_if_false)
next
  case True
  let ?a = "assign ''qasm_simulator''
         (call_method lib ''Aer.get_backend'' (name ''Aer'') [lit (PStr ''qasm_simulator'')] [])"
  let ?b = "expr_stmt
         (call_method lib ''IBMQ.save_account'' (name ''IBMQ'') [lit (PStr account_token)]
            [(''overwrite'', lit (PBool True))])"
  have cell: "snd (if_stmt (name ''qasm'') (block (?a # ?b # cs)) s) = snd (block (?a # ?b # cs) s)"
    using q True by (intro snd_if_true) simp
  have body: "events_of ''IBMQ.save_account'' (trace (snd (block (?a # ?b # cs) s))) =
      events_of ''IBMQ.save_account'' (trace (snd (thenP ?a ?b s)))"
    by (rule two_then_rest [OF rest l])
  show ?thesis
    unfolding cell body using True account_statements [OF ev, of lib] by simp
qed

lemma backend_qasm_saves:
  assumes ev: "events_of ''IBMQ.save_account'' (trace s) = []"
    and q: "globals s ''qasm'' = Some (PBool b)"
  shows "events_of ''IBMQ.save_account'' (trace (snd (cell_backend_qasm lib s))) = [] \<or>
     (b \<and> (\<exists>v r. events_of ''IBMQ.save_account'' (trace (snd (cell_backend_qasm lib s))) =
        [Call ''IBMQ.save_account'' [v, PStr account_token] [(''overwrite'', PBool True)] r]))"
  unfolding cell_backend_qasm_def
proof (rule save_cell_generic [where W = "[''lb_device'', ''quantum_instance'', ''device'',
        ''properties'', ''coupling_map'', ''noise_model'', ''basis_gates'', ''shots'', ''sv_mode'',
        ''num_qubits'']" and L = "[''IBMQ.load_accounts'', ''IBMQ.backends'',
        ''least_busy'', ''{}'', ''QuantumInstance'', ''device.properties'', ''device.configuration'',
        ''noise.device.basic_device_noise_model'']"])
  show "footprint [''lb_device'', ''quantum_instance'', ''device'',
        ''properties'', ''coupling_map'', ''noise_model'', ''basis_gates'', ''shots'', ''sv_mode'',
        ''num_qubits''] [''IBMQ.load_accounts'', ''IBMQ.backends'',
        ''least_busy'', ''{}'', ''QuantumInstance'', ''device.properties'', ''device.configuration'',
        ''noise.device.basic_device_noise_model'']
     (block
       [expr_stmt (call_method lib ''IBMQ.load_accounts'' (name ''IBMQ'') [] []),
        assign ''lb_device''
          (invoke lib ''least_busy'' [call_method lib ''IBMQ.backends'' (name ''IBMQ'') [] []] []),
        print_fmt ''{}'' [name ''lb_device''],
        assign ''quantum_instance''
          (invoke lib ''QuantumInstance'' [] [(''backend'', name ''lb_device'')]),
        assign ''device'' (name ''lb_device''),
        assign ''properties'' (call_method lib ''device.properties'' (name ''device'') [] []),
        assign ''coupling_map''
          (attr lib (call_method lib ''device.configuration'' (name ''device'') [] []) ''coupling_map''),
        assign ''noise_model''
          (call_method lib ''noise.device.basic_device_noise_model''
             (attr lib (name ''noise'') ''device'') [name ''properties''] []),
        assign ''basis_gates'' (attr lib (name ''noise_model'') ''basis_gates''),
        assign ''shots'' (lit (PInt 10000)),
        assign ''quantum_instance''
          (invoke lib ''QuantumInstance'' [name ''qasm_simulator'']
             [(''shots'', name ''shots''),
              (''basis_gates'', name ''basis_gates''),
              (''coupling_map'', name ''coupling_map''),
              (''initial_layout'', name ''qubit_mapper''),
              (''noise_model'', name ''noise_model'')]),
        assign ''sv_mode'' (lit (PBool False)),
        assign ''num_qubits'' (attr lib (name ''qubitOp'') ''num_qubits'')])"
    by (intro fp_rules; simp)
qed (simp_all add: ev q)

text \<open>
  C1 (as amended). A run with \<^verbatim>\<open>qasm = False\<close> makes no call that stores data. A run
  with \<^verbatim>\<open>qasm = True\<close> makes at most one, in backend setup:
  \<^verbatim>\<open>IBMQ.save_account(<token>, overwrite=True)\<close>, which stores the credential.
\<close>

theorem only_the_qasm_branch_stores:
  "filter persists (trace (snd (run lib cfg))) = [] \<or>
   (cfg_qasm cfg \<and>
    (\<exists>v r. filter persists (trace (snd (run lib cfg))) =
       [Call ''IBMQ.save_account'' [v, PStr account_token] [(''overwrite'', PBool True)] r]))"
proof -
  let ?nb = "notebook lib cfg"
  let ?save = "''IBMQ.save_account''"
  define I where "I s = (events_of ?save (trace s) = [])" for s :: state
  define J where "J s = (events_of ?save (trace s) = [] \<or>
     (cfg_qasm cfg \<and> (\<exists>v r. events_of ?save (trace s) =
        [Call ?save [v, PStr account_token] [(''overwrite'', PBool True)] r])))" for s :: state
  define pre where "pre = take 8 ?nb"
  define post where "post = drop 10 ?nb"
  let ?mids = "[(''qasm'', cell_qasm cfg), (''backend_qasm'', cell_backend_qasm lib)]"
  have nb: "?nb = pre @ ?mids @ post"
    by (simp add: notebook_def pre_def post_def)
  have f_pre: "list_all (\<lambda>(c, m). frame_ok [] [?save] m) pre"
    by (simp add: pre_def notebook_def cell_frames)
  have f_post: "list_all (\<lambda>(c, m). frame_ok [] [?save] m) post"
    by (simp add: post_def notebook_def cell_frames)
  have congI: "\<And>s s'. same_on [] [?save] s s' \<Longrightarrow> I s \<Longrightarrow> I s'"
    by (simp add: same_on_def I_def)
  have congJ: "\<And>s s'. same_on [] [?save] s s' \<Longrightarrow> J s \<Longrightarrow> J s'"
    by (simp add: same_on_def J_def)
  have IJ: "\<And>s. I s \<Longrightarrow> J s"
    by (simp add: I_def J_def)
  have mids: "J (snd (run_cells ?mids s))" if "I s" for s
  proof -
    let ?s1 = "s\<lparr>globals := (globals s)(''qasm'' \<mapsto> PBool (cfg_qasm cfg))\<rparr>"
    have ev: "events_of ?save (trace ?s1) = []" using that by (simp add: I_def)
    have q: "globals ?s1 ''qasm'' = Some (PBool (cfg_qasm cfg))" by simp
    have "snd (run_cells ?mids s) = snd (cell_backend_qasm lib ?s1)"
      by (simp add: cell_qasm_run split: prod.splits sum.splits)
    with backend_qasm_saves [OF ev q, of lib] show ?thesis by (simp add: J_def)
  qed
  have tail_ok: "J (snd (run_cells (?mids @ post) s))" if "I s" for s
    using that
  proof (rule run_cells_seq [where Q = J])
    show "\<And>s. I s \<Longrightarrow> J (snd (run_cells ?mids s))" by (rule mids)
    show "\<And>s. J s \<Longrightarrow> J (snd (run_cells post s))"
      by (rule run_cells_preserve [where I = J, OF f_post congJ])
  qed
  have "I init_state" by (simp add: I_def init_state_def events_of_def)
  then have "J (snd (run_cells (pre @ ?mids @ post) init_state))"
  proof (rule run_cells_seq [where Q = I])
    show "\<And>s. I s \<Longrightarrow> I (snd (run_cells pre s))"
      by (rule run_cells_preserve [where I = I, OF f_pre congI])
    show "\<And>s. I s \<Longrightarrow> J (snd (run_cells (?mids @ post) s))" by (rule tail_ok)
    show "\<And>s. I s \<Longrightarrow> J s" by (rule IJ)
  qed
  then show ?thesis
    unfolding run_def nb filter_persists J_def by simp
qed


theorem only_the_qasm_branch_stores_witness:
  "filter persists (trace (snd (run stub_library exact_config))) = [] \<or>
   (cfg_qasm exact_config \<and>
    (\<exists>v r. filter persists (trace (snd (run stub_library exact_config))) =
       [Call ''IBMQ.save_account'' [v, PStr account_token] [(''overwrite'', PBool True)] r]))"
  using only_the_qasm_branch_stores [of stub_library exact_config] .

text \<open>
  The claim as the specification states it, that no run writes data to disk, fails on the
  notebook as committed: with libraries that answer every call, the run calls
  \<^verbatim>\<open>IBMQ.save_account\<close> before it stops.
\<close>

theorem stored_credential_counterexample:
  "filter persists (trace (snd (run stub_library notebook_config))) =
     [Call ''IBMQ.save_account'' [PImported ''IBMQ'', PStr account_token]
        [(''overwrite'', PBool True)] (Returns (PObj 0))]"
  by (simp add: run_def notebook_def cell_defs prog_defs op_defs stub_defs persists_def)

section \<open>The qubit-reduction flag\<close>

lemma mapping_cell:
  assumes mt: "globals s ''map_type'' = Some (PStr m)"
  shows "case cell_mapping lib s of (r, s') \<Rightarrow>
    globals s' ''qubit_reduction'' = Some (PBool (m = ''parity'')) \<and>
    (m = ''parity'' \<or>
       events_of ''qubitOp.two_qubit_reduced_operator'' (drop (length (trace s)) (trace s')) = []) \<and>
    (r = Inr () \<longrightarrow>
       (\<exists>f q. events_of ''ferOp.mapping'' (drop (length (trace s)) (trace s')) =
            [Call ''ferOp.mapping'' [f]
               [(''map_type'', PStr m), (''threshold'', PFloat (1 / 10 ^ 8))] (Returns q)] \<and>
          (if m = ''parity''
           then \<exists>n q'. globals s ''num_particles'' = Some n \<and>
                  events_of ''qubitOp.two_qubit_reduced_operator''
                    (drop (length (trace s)) (trace s')) =
                    [Call ''qubitOp.two_qubit_reduced_operator'' [q, n] [] (Returns q')] \<and>
                  globals s' ''qubitOp'' = Some q'
           else globals s' ''qubitOp'' = Some q)))"
  using mt unfolding cell_mapping_def
  by (simp add: prog_defs Let_def events_of_def py_eq_def split: outcome.splits option.splits)

text \<open>
  C2. Whatever mapping type \<open>m\<close> is chosen, the mapping cell sets \<^verbatim>\<open>qubit_reduction\<close> to the
  truth value of \<open>m = 'parity'\<close>. With another mapping type the cell never calls
  \<^verbatim>\<open>two_qubit_reduced_operator\<close>; when the cell completes, it has called it, on the mapped
  operator and the particle count, exactly if \<open>m\<close> is \<open>'parity'\<close>, and \<^verbatim>\<open>qubitOp\<close> is the
  reduced operator in that case and the mapped operator otherwise.
\<close>

theorem qubit_reduction_iff_parity:
  assumes mt: "globals s ''map_type'' = Some (PStr m)"
  shows "globals (snd (cell_mapping lib s)) ''qubit_reduction'' = Some (PBool (m = ''parity'')) \<and>
    (m = ''parity'' \<or>
       events_of ''qubitOp.two_qubit_reduced_operator'' (new_events (cell_mapping lib) s) = []) \<and>
    (fst (cell_mapping lib s) = Inr () \<longrightarrow>
       (\<exists>f q. events_of ''ferOp.mapping'' (new_events (cell_mapping lib) s) =
            [Call ''ferOp.mapping'' [f]
               [(''map_type'', PStr m), (''threshold'', PFloat (1 / 10 ^ 8))] (Returns q)] \<and>
          (if m = ''parity''
           then \<exists>n q'. globals s ''num_particles'' = Some n \<and>
                  events_of ''qubitOp.two_qubit_reduced_operator'' (new_events (cell_mapping lib) s) =
                    [Call ''qubitOp.two_qubit_reduced_operator'' [q, n] [] (Returns q')] \<and>
                  globals (snd (cell_mapping lib s)) ''qubitOp'' = Some q'
           else globals (snd (cell_mapping lib s)) ''qubitOp'' = Some q)))"
  using mapping_cell [OF mt, of lib] unfolding new_events_def
  by (simp add: split_beta)

lemma stub_mapping_completes: "fst (cell_mapping stub_library (before_mapping m)) = Inr ()"
  unfolding cell_mapping_def before_mapping_def
  by (simp add: prog_defs Let_def py_eq_def stub_library_def stub_call_def stub_attr_def)

theorem qubit_reduction_iff_parity_witness:
  "(globals (before_mapping ''parity'') ''map_type'' = Some (PStr ''parity'') \<and>
    fst (cell_mapping stub_library (before_mapping ''parity'')) = Inr () \<and>
    globals (snd (cell_mapping stub_library (before_mapping ''parity''))) ''qubit_reduction'' =
      Some (PBool True) \<and>
    events_of ''qubitOp.two_qubit_reduced_operator''
      (new_events (cell_mapping stub_library) (before_mapping ''parity'')) \<noteq> []) \<and>
   (globals (before_mapping ''jordan_wigner'') ''map_type'' = Some (PStr ''jordan_wigner'') \<and>
    fst (cell_mapping stub_library (before_mapping ''jordan_wigner'')) = Inr () \<and>
    globals (snd (cell_mapping stub_library (before_mapping ''jordan_wigner''))) ''qubit_reduction'' =
      Some (PBool False) \<and>
    events_of ''qubitOp.two_qubit_reduced_operator''
      (new_events (cell_mapping stub_library) (before_mapping ''jordan_wigner'')) = [])"
proof -
  have p: "globals (before_mapping ''parity'') ''map_type'' = Some (PStr ''parity'')"
    by (simp add: before_mapping_def)
  have j: "globals (before_mapping ''jordan_wigner'') ''map_type'' = Some (PStr ''jordan_wigner'')"
    by (simp add: before_mapping_def)
  show ?thesis
    using p j qubit_reduction_iff_parity [OF p, of stub_library]
      qubit_reduction_iff_parity [OF j, of stub_library]
      stub_mapping_completes [of "''parity''"] stub_mapping_completes [of "''jordan_wigner''"]
    by auto
qed


section \<open>Qubit counts agree\<close>

lemma hartree_fock_cell:
  assumes hf: "events_of ''HartreeFock'' (trace s) = []" and st: "globals s ''HF_state'' = None"
  shows "case cell_hartree_fock lib s of (r, s') \<Rightarrow>
    ((events_of ''HartreeFock'' (trace s') = [] \<and> globals s' ''HF_state'' = None) \<or>
     (\<exists>q n c rest a. globals s ''qubitOp'' = Some q \<and> attr_of lib ''num_qubits'' q = Returns n \<and>
        events_of ''HartreeFock'' (trace s') = [Call ''HartreeFock'' (c # n # rest) [] a] \<and>
        globals s' ''HF_state'' = returned a))"
  using assms unfolding cell_hartree_fock_def
  by (simp add: prog_defs Let_def events_of_append split: outcome.splits option.splits)

lemma var_form_cell:
  assumes uc: "events_of ''UCCSD'' (trace s) = []" and vf: "globals s ''var_form'' = None"
  shows "case cell_var_form lib s of (r, s') \<Rightarrow>
    ((events_of ''UCCSD'' (trace s') = [] \<and> globals s' ''var_form'' = None) \<or>
     (\<exists>q n h c kws a. globals s ''qubitOp'' = Some q \<and> attr_of lib ''num_qubits'' q = Returns n \<and>
        globals s ''HF_state'' = Some h \<and>
        events_of ''UCCSD'' (trace s') = [Call ''UCCSD'' [c, n] kws a] \<and>
        map_of kws ''initial_state'' = Some h \<and>
        globals s' ''var_form'' = returned a))"
  using assms unfolding cell_var_form_def
  by (simp add: prog_defs Let_def events_of_append split: outcome.splits option.splits)

lemma vqe_cell:
  assumes vq: "events_of ''VQE'' (trace s) = []"
  shows "case cell_vqe lib s of (r, s') \<Rightarrow>
    (events_of ''VQE'' (trace s') = [] \<or>
     (\<exists>q v c opt a. globals s ''qubitOp'' = Some q \<and> globals s ''var_form'' = Some v \<and>
        events_of ''VQE'' (trace s') = [Call ''VQE'' [c, q, v, opt] [] a]))"
  using assms unfolding cell_vqe_def
  by (simp add: prog_defs Let_def events_of_append split: outcome.splits option.splits)

text \<open>
  C4. In every run, whatever the configuration and the libraries' answers, the
  Hartree-Fock initial state is built on \<^verbatim>\<open>qubitOp.num_qubits\<close>, the UCCSD variational form
  is built on the same number and on that initial state, and the solver is given the same
  \<^verbatim>\<open>qubitOp\<close> and that variational form.
\<close>

theorem ansatz_and_initial_state_on_hamiltonian_qubits:
  "agree_on_qubits lib (snd (run lib cfg))"
proof -
  let ?nb = "notebook lib cfg"
  let ?HF = "\<lambda>s. events_of ''HartreeFock'' (trace s)"
  let ?UC = "\<lambda>s. events_of ''UCCSD'' (trace s)"
  let ?VQ = "\<lambda>s. events_of ''VQE'' (trace s)"
  let ?ls = "[''HartreeFock'', ''UCCSD'', ''VQE'']"
  define I0 where "I0 s = (?HF s = [] \<and> ?UC s = [] \<and> ?VQ s = [] \<and>
      globals s ''HF_state'' = None \<and> globals s ''var_form'' = None)" for s :: state
  define I1 where "I1 s = (?UC s = [] \<and> ?VQ s = [] \<and> globals s ''var_form'' = None \<and>
      ((?HF s = [] \<and> globals s ''HF_state'' = None) \<or>
       (\<exists>q n c rest a. globals s ''qubitOp'' = Some q \<and> attr_of lib ''num_qubits'' q = Returns n \<and>
          ?HF s = [Call ''HartreeFock'' (c # n # rest) [] a] \<and>
          globals s ''HF_state'' = returned a)))" for s :: state
  define I2 where "I2 s = (?VQ s = [] \<and>
      ((?HF s = [] \<and> ?UC s = [] \<and> globals s ''var_form'' = None) \<or>
       (\<exists>q n c rest a. globals s ''qubitOp'' = Some q \<and> attr_of lib ''num_qubits'' q = Returns n \<and>
          ?HF s = [Call ''HartreeFock'' (c # n # rest) [] a] \<and>
          ((?UC s = [] \<and> globals s ''var_form'' = None) \<or>
           (\<exists>h c' kws a'. a = Returns h \<and> ?UC s = [Call ''UCCSD'' [c', n] kws a'] \<and>
              map_of kws ''initial_state'' = Some h \<and> globals s ''var_form'' = returned a')))))"
    for s :: state
  define J where "J = agree_on_qubits lib"
  define pre where "pre = take 6 ?nb"
  define mid where "mid = take 3 (drop 8 ?nb)"
  define post where "post = drop 12 ?nb"
  have nb: "?nb = pre @ [(''hartree_fock'', cell_hartree_fock lib)] @
      [(''var_form'', cell_var_form lib)] @ mid @ [(''vqe'', cell_vqe lib)] @ post"
    by (simp add: notebook_def pre_def mid_def post_def)
  have f_pre: "list_all (\<lambda>(c, m). frame_ok [''HF_state'', ''var_form''] ?ls m) pre"
    by (simp add: pre_def notebook_def cell_frames)
  have f_mid: "list_all (\<lambda>(c, m). frame_ok [''qubitOp'', ''var_form''] ?ls m) mid"
    by (simp add: mid_def notebook_def cell_frames)
  have f_post: "list_all (\<lambda>(c, m). frame_ok [''qubitOp''] ?ls m) post"
    by (simp add: post_def notebook_def cell_frames)
  have cong0: "\<And>s s'. same_on [''HF_state'', ''var_form''] ?ls s s' \<Longrightarrow> I0 s \<Longrightarrow> I0 s'"
    by (simp add: same_on_def I0_def)
  have cong2: "\<And>s s'. same_on [''qubitOp'', ''var_form''] ?ls s s' \<Longrightarrow> I2 s \<Longrightarrow> I2 s'"
    by (simp add: same_on_def I2_def)
  have congJ: "\<And>s s'. same_on [''qubitOp''] ?ls s s' \<Longrightarrow> J s \<Longrightarrow> J s'"
    by (simp add: same_on_def J_def agree_on_qubits_def)
  have I0J: "\<And>s. I0 s \<Longrightarrow> J s" by (simp add: I0_def J_def agree_on_qubits_def)
  have I1J: "\<And>s. I1 s \<Longrightarrow> J s" by (auto simp add: I1_def J_def agree_on_qubits_def)
  have I2J: "\<And>s. I2 s \<Longrightarrow> J s" by (auto simp add: I2_def J_def agree_on_qubits_def)
  have step_hf: "I1 (snd (cell_hartree_fock lib s))" if "I0 s" for s
  proof -
    note fp = fp_cell_hartree_fock [of lib]
    have keep: "?UC (snd (cell_hartree_fock lib s)) = ?UC s" "?VQ (snd (cell_hartree_fock lib s)) = ?VQ s"
      "globals (snd (cell_hartree_fock lib s)) ''var_form'' = globals s ''var_form''"
      "globals (snd (cell_hartree_fock lib s)) ''qubitOp'' = globals s ''qubitOp''"
      by (simp_all add: footprint_events [OF fp] footprint_globals [OF fp])
    from that have "?HF s = []" "globals s ''HF_state'' = None" by (simp_all add: I0_def)
    from hartree_fock_cell [OF this, of lib] keep that show ?thesis
      by (auto simp add: I0_def I1_def split_beta)
  qed
  have step_vf: "I2 (snd (cell_var_form lib s))" if "I1 s" for s
  proof -
    note fp = fp_cell_var_form [of lib]
    have keep: "?HF (snd (cell_var_form lib s)) = ?HF s" "?VQ (snd (cell_var_form lib s)) = ?VQ s"
      "globals (snd (cell_var_form lib s)) ''qubitOp'' = globals s ''qubitOp''"
      by (simp_all add: footprint_events [OF fp] footprint_globals [OF fp])
    from that have "?UC s = []" "globals s ''var_form'' = None" by (simp_all add: I1_def)
    from var_form_cell [OF this, of lib] keep that show ?thesis
      by (auto simp add: I1_def I2_def split_beta)
  qed
  have step_vqe: "J (snd (cell_vqe lib s))" if "I2 s" for s
  proof -
    note fp = fp_cell_vqe [of lib]
    have keep: "?HF (snd (cell_vqe lib s)) = ?HF s" "?UC (snd (cell_vqe lib s)) = ?UC s"
      "globals (snd (cell_vqe lib s)) ''qubitOp'' = globals s ''qubitOp''"
      by (simp_all add: footprint_events [OF fp] footprint_globals [OF fp])
    from that have "?VQ s = []" by (simp add: I2_def)
    from vqe_cell [OF this, of lib] keep that show ?thesis
      by (auto simp add: I2_def J_def agree_on_qubits_def split_beta)
  qed
  have t5: "\<And>s. J s \<Longrightarrow> J (snd (run_cells post s))"
    by (rule run_cells_preserve [where I = J, OF f_post congJ])
  have c_hf: "\<And>s. I0 s \<Longrightarrow> I1 (snd (run_cells [(''hartree_fock'', cell_hartree_fock lib)] s))"
    by (simp only: run_cells_single step_hf)
  have c_vf: "\<And>s. I1 s \<Longrightarrow> I2 (snd (run_cells [(''var_form'', cell_var_form lib)] s))"
    by (simp only: run_cells_single step_vf)
  have c_vqe: "\<And>s. I2 s \<Longrightarrow> J (snd (run_cells [(''vqe'', cell_vqe lib)] s))"
    by (simp only: run_cells_single step_vqe)
  have t4: "J (snd (run_cells ([(''vqe'', cell_vqe lib)] @ post) s))" if "I2 s" for s
    by (rule run_cells_seq [where P = I2 and Q = J and R = J, OF that c_vqe t5])
  have m3: "\<And>s. I2 s \<Longrightarrow> I2 (snd (run_cells mid s))"
    by (rule run_cells_preserve [where I = I2, OF f_mid cong2])
  have t3: "J (snd (run_cells (mid @ [(''vqe'', cell_vqe lib)] @ post) s))" if "I2 s" for s
    by (rule run_cells_seq [where P = I2 and Q = I2 and R = J, OF that m3 t4 I2J])
  have t2: "J (snd (run_cells ([(''var_form'', cell_var_form lib)] @ mid @
      [(''vqe'', cell_vqe lib)] @ post) s))" if "I1 s" for s
    by (rule run_cells_seq [where P = I1 and Q = I2 and R = J, OF that c_vf t3 I2J])
  have t1: "J (snd (run_cells ([(''hartree_fock'', cell_hartree_fock lib)] @
      [(''var_form'', cell_var_form lib)] @ mid @ [(''vqe'', cell_vqe lib)] @ post) s))"
    if "I0 s" for s
    by (rule run_cells_seq [where P = I0 and Q = I1 and R = J, OF that c_hf t2 I1J])
  have m0: "\<And>s. I0 s \<Longrightarrow> I0 (snd (run_cells pre s))"
    by (rule run_cells_preserve [where I = I0, OF f_pre cong0])
  have i0: "I0 init_state" by (simp add: I0_def init_state_def)
  have "J (snd (run_cells (pre @ [(''hartree_fock'', cell_hartree_fock lib)] @
      [(''var_form'', cell_var_form lib)] @ mid @ [(''vqe'', cell_vqe lib)] @ post) init_state))"
    by (rule run_cells_seq [where P = I0 and Q = I0 and R = J, OF i0 m0 t1 I0J])
  then show ?thesis
    unfolding run_def J_def by (simp only: nb)
qed


theorem ansatz_and_initial_state_on_hamiltonian_qubits_witness:
  "agree_on_qubits stub_library (snd (run stub_library exact_config))"
  using ansatz_and_initial_state_on_hamiltonian_qubits [of stub_library exact_config] .

section \<open>The reported energies\<close>

lemma molecule_cell:
  assumes "globals s ''nuclear_repulsion_energy'' = None"
  shows "case cell_molecule lib s of (r, s') \<Rightarrow>
    (globals s' ''nuclear_repulsion_energy'' = None \<or>
     (\<exists>mol v. globals s' ''molecule'' = Some mol \<and>
        globals s' ''nuclear_repulsion_energy'' = Some v \<and>
        attr_of lib ''nuclear_repulsion_energy'' mol = Returns v))"
  using assms unfolding cell_molecule_def
  by (simp add: prog_defs Let_def split: outcome.splits option.splits sum.splits)

lemma run_cell:
  assumes "events_of ''vqe.run'' (trace s) = []" and "events_of total_fmt (trace s) = []"
    and "globals s ''results'' = None"
  shows "case cell_run lib s of (r, s') \<Rightarrow>
    ((events_of ''vqe.run'' (trace s') = [] \<and> globals s' ''results'' = None \<and>
      events_of total_fmt (trace s') = []) \<or>
     (\<exists>c qi a. events_of ''vqe.run'' (trace s') = [Call ''vqe.run'' [c, qi] [] a] \<and>
        globals s' ''results'' = returned a \<and>
        (events_of total_fmt (trace s') = [] \<or>
         (\<exists>res ev e nre v. a = Returns res \<and>
            subscript res (PStr ''eigvals'') = Inr ev \<and> subscript ev (PInt 0) = Inr e \<and>
            globals s ''nuclear_repulsion_energy'' = Some nre \<and> py_add e nre = Inr v \<and>
            events_of total_fmt (trace s') = [Print total_fmt [v]]))))"
  using assms unfolding cell_run_def total_fmt_def
  by (simp add: prog_defs Let_def events_of_append split: outcome.splits option.splits sum.splits)

text \<open>
  C8. In every run the solver is called at most once; \<^verbatim>\<open>results\<close> is bound to what that
  call returned and to nothing else until the end of the run; and the total ground state
  energy, when it is printed, is the sum of the solver's first eigenvalue and the nuclear
  repulsion energy read from the molecule. A run that stops before the solver cell has
  no result record.
\<close>

theorem total_energy_adds_nuclear_repulsion:
  "result_record lib (snd (run lib cfg))"
proof -
  let ?nb = "notebook lib cfg"
  let ?RUN = "\<lambda>s. events_of ''vqe.run'' (trace s)"
  let ?TOT = "\<lambda>s. events_of total_fmt (trace s)"
  let ?ls = "[''vqe.run'', total_fmt]"
  define A where "A s = (globals s ''nuclear_repulsion_energy'' = None \<and> ?RUN s = [] \<and> ?TOT s = [] \<and>
      globals s ''results'' = None)" for s :: state
  define B where "B s = (?RUN s = [] \<and> ?TOT s = [] \<and> globals s ''results'' = None \<and>
      (globals s ''nuclear_repulsion_energy'' = None \<or>
       (\<exists>mol v. globals s ''molecule'' = Some mol \<and>
          globals s ''nuclear_repulsion_energy'' = Some v \<and>
          attr_of lib ''nuclear_repulsion_energy'' mol = Returns v)))" for s :: state
  define R where "R = result_record lib"
  define pre where "pre = take 1 ?nb"
  define mid where "mid = take 10 (drop 2 ?nb)"
  define post where "post = drop 13 ?nb"
  have nb: "?nb = pre @ [(''molecule'', cell_molecule lib)] @ mid @ [(''run'', cell_run lib)] @ post"
    by (simp add: notebook_def pre_def mid_def post_def)
  have f_pre: "list_all (\<lambda>(c, m). frame_ok [''nuclear_repulsion_energy'', ''results''] ?ls m) pre"
    by (simp add: pre_def notebook_def cell_frames total_fmt_def)
  have f_mid: "list_all (\<lambda>(c, m).
      frame_ok [''nuclear_repulsion_energy'', ''molecule'', ''results''] ?ls m) mid"
    by (simp add: mid_def notebook_def cell_frames total_fmt_def)
  have f_post: "list_all (\<lambda>(c, m). frame_ok [''molecule'', ''results''] ?ls m) post"
    by (simp add: post_def notebook_def cell_frames total_fmt_def)
  have congA: "\<And>s s'. same_on [''nuclear_repulsion_energy'', ''results''] ?ls s s' \<Longrightarrow> A s \<Longrightarrow> A s'"
    by (simp add: same_on_def A_def)
  have congB: "\<And>s s'. same_on [''nuclear_repulsion_energy'', ''molecule'', ''results''] ?ls s s' \<Longrightarrow>
      B s \<Longrightarrow> B s'"
    by (simp add: same_on_def B_def)
  have congR: "\<And>s s'. same_on [''molecule'', ''results''] ?ls s s' \<Longrightarrow> R s \<Longrightarrow> R s'"
    by (simp add: same_on_def R_def result_record_def)
  have AR: "\<And>s. A s \<Longrightarrow> R s" by (simp add: A_def R_def result_record_def)
  have BR: "\<And>s. B s \<Longrightarrow> R s" by (simp add: B_def R_def result_record_def)
  have step_mol: "B (snd (cell_molecule lib s))" if "A s" for s
  proof -
    note fp = fp_cell_molecule [of lib]
    have keep: "?RUN (snd (cell_molecule lib s)) = ?RUN s" "?TOT (snd (cell_molecule lib s)) = ?TOT s"
      "globals (snd (cell_molecule lib s)) ''results'' = globals s ''results''"
      by (simp_all add: footprint_events [OF fp] footprint_globals [OF fp] total_fmt_def)
    from that have "globals s ''nuclear_repulsion_energy'' = None" by (simp add: A_def)
    from molecule_cell [OF this, of lib] keep that show ?thesis
      by (auto simp add: A_def B_def split_beta)
  qed
  have step_run: "R (snd (cell_run lib s))" if "B s" for s
  proof -
    note fp = fp_cell_run [of lib]
    have keep: "globals (snd (cell_run lib s)) ''molecule'' = globals s ''molecule''"
      by (simp add: footprint_globals [OF fp])
    from that have "?RUN s = []" "?TOT s = []" "globals s ''results'' = None"
      by (simp_all add: B_def)
    from run_cell [OF this, of lib] keep that show ?thesis
      by (auto simp add: B_def R_def result_record_def split_beta)
  qed
  have c_mol: "\<And>s. A s \<Longrightarrow> B (snd (run_cells [(''molecule'', cell_molecule lib)] s))"
    by (simp only: run_cells_single step_mol)
  have c_run: "\<And>s. B s \<Longrightarrow> R (snd (run_cells [(''run'', cell_run lib)] s))"
    by (simp only: run_cells_single step_run)
  have t4: "\<And>s. R s \<Longrightarrow> R (snd (run_cells post s))"
    by (rule run_cells_preserve [where I = R, OF f_post congR])
  have t3: "R (snd (run_cells ([(''run'', cell_run lib)] @ post) s))" if "B s" for s
    by (rule run_cells_seq [where P = B and Q = R and R = R, OF that c_run t4])
  have m2: "\<And>s. B s \<Longrightarrow> B (snd (run_cells mid s))"
    by (rule run_cells_preserve [where I = B, OF f_mid congB])
  have t2: "R (snd (run_cells (mid @ [(''run'', cell_run lib)] @ post) s))" if "B s" for s
    by (rule run_cells_seq [where P = B and Q = B and R = R, OF that m2 t3 BR])
  have t1: "R (snd (run_cells ([(''molecule'', cell_molecule lib)] @ mid @
      [(''run'', cell_run lib)] @ post) s))" if "A s" for s
    by (rule run_cells_seq [where P = A and Q = B and R = R, OF that c_mol t2 BR])
  have m0: "\<And>s. A s \<Longrightarrow> A (snd (run_cells pre s))"
    by (rule run_cells_preserve [where I = A, OF f_pre congA])
  have a0: "A init_state" by (simp add: A_def init_state_def)
  have "R (snd (run_cells (pre @ [(''molecule'', cell_molecule lib)] @ mid @
      [(''run'', cell_run lib)] @ post) init_state))"
    by (rule run_cells_seq [where P = A and Q = A and R = R, OF a0 m0 t1 AR])
  then show ?thesis
    unfolding run_def R_def by (simp only: nb)
qed


theorem total_energy_adds_nuclear_repulsion_witness:
  "result_record stub_library (snd (run stub_library exact_config))"
  using total_energy_adds_nuclear_repulsion [of stub_library exact_config] .

section \<open>The run of the notebook as committed\<close>

subsection \<open>The cells before the backend setup\<close>

text \<open>
  Each cell, run with the names it reads bound, either completes and binds its names, or
  stops with an exception that comes from a library.
\<close>

lemma imports_advances:
  assumes "bound [] s"
  shows "case cell_imports lib s of (r, s') \<Rightarrow>
    (r = Inr () \<and> bound [''Aer'', ''IBMQ'', ''least_busy'', ''QuantumInstance'', ''COBYLA'',
       ''FermionicOperator'', ''PySCFDriver'', ''UnitsType'', ''UCCSD'', ''HartreeFock''] s') \<or>
    (\<exists>e. r = Inl e \<and> library_fault e)"
  unfolding cell_imports_def
  by (simp add: prog_defs Let_def bound_def split: outcome.splits)

lemma molecule_steps:
  assumes "globals s ''PySCFDriver'' = Some d" and "globals s ''UnitsType'' = Some u"
  shows "case cell_molecule lib s of (r, s') \<Rightarrow>
    (r = Inr () \<and> bound [''molecule'', ''num_particles'', ''num_spin_orbitals''] s') \<or>
    (\<exists>e. r = Inl e \<and> library_fault e)"
  using assms unfolding cell_molecule_def
  by (simp add: prog_defs Let_def bound_def py_add_def py_sub_def py_mul_def arith_def
      split: outcome.splits option.splits num.splits)

lemma molecule_advances:
  assumes "bound [''PySCFDriver'', ''UnitsType''] s"
  shows "case cell_molecule lib s of (r, s') \<Rightarrow>
    (r = Inr () \<and> bound [''molecule'', ''num_particles'', ''num_spin_orbitals''] s') \<or>
    (\<exists>e. r = Inl e \<and> library_fault e)"
proof -
  from assms obtain d u where "globals s ''PySCFDriver'' = Some d" "globals s ''UnitsType'' = Some u"
    by (auto simp add: bound_def)
  then show ?thesis by (rule molecule_steps)
qed

lemma map_type_advances:
  assumes "bound [] s"
  shows "case cell_map_type cfg s of (r, s') \<Rightarrow>
    (r = Inr () \<and> bound [''map_type''] s') \<or> (\<exists>e. r = Inl e \<and> library_fault e)"
  unfolding cell_map_type_def by (simp add: prog_defs bound_def)

lemma fermionic_steps:
  assumes "globals s ''molecule'' = Some m" and "globals s ''FermionicOperator'' = Some f"
  shows "case cell_fermionic lib s of (r, s') \<Rightarrow>
    (r = Inr () \<and> bound [''ferOp''] s') \<or> (\<exists>e. r = Inl e \<and> library_fault e)"
  using assms unfolding cell_fermionic_def
  by (simp add: prog_defs Let_def bound_def split: outcome.splits)

lemma fermionic_advances:
  assumes "bound [''molecule'', ''FermionicOperator''] s"
  shows "case cell_fermionic lib s of (r, s') \<Rightarrow>
    (r = Inr () \<and> bound [''ferOp''] s') \<or> (\<exists>e. r = Inl e \<and> library_fault e)"
proof -
  from assms obtain m f where "globals s ''molecule'' = Some m"
    "globals s ''FermionicOperator'' = Some f"
    by (auto simp add: bound_def)
  then show ?thesis by (rule fermionic_steps)
qed

lemma mapping_steps:
  assumes "globals s ''map_type'' = Some m" and "globals s ''ferOp'' = Some f"
    and "globals s ''num_particles'' = Some n"
  shows "case cell_mapping lib s of (r, s') \<Rightarrow>
    (r = Inr () \<and> bound [''qubit_reduction'', ''qubitOp''] s') \<or>
    (\<exists>e. r = Inl e \<and> library_fault e)"
  using assms unfolding cell_mapping_def
  by (simp add: prog_defs Let_def bound_def split: outcome.splits)

lemma mapping_advances:
  assumes "bound [''map_type'', ''ferOp'', ''num_particles''] s"
  shows "case cell_mapping lib s of (r, s') \<Rightarrow>
    (r = Inr () \<and> bound [''qubit_reduction'', ''qubitOp''] s') \<or>
    (\<exists>e. r = Inl e \<and> library_fault e)"
proof -
  from assms obtain m f n where "globals s ''map_type'' = Some m" "globals s ''ferOp'' = Some f"
    "globals s ''num_particles'' = Some n"
    by (auto simp add: bound_def)
  then show ?thesis by (rule mapping_steps)
qed

lemma optimizer_steps:
  assumes "globals s ''COBYLA'' = Some c"
  shows "case cell_optimizer lib s of (r, s') \<Rightarrow>
    (r = Inr () \<and> bound [''optimizer''] s') \<or> (\<exists>e. r = Inl e \<and> library_fault e)"
  using assms unfolding cell_optimizer_def
  by (simp add: prog_defs Let_def bound_def split: outcome.splits)

lemma optimizer_advances:
  assumes "bound [''COBYLA''] s"
  shows "case cell_optimizer lib s of (r, s') \<Rightarrow>
    (r = Inr () \<and> bound [''optimizer''] s') \<or> (\<exists>e. r = Inl e \<and> library_fault e)"
proof -
  from assms obtain c where "globals s ''COBYLA'' = Some c"
    by (auto simp add: bound_def)
  then show ?thesis by (rule optimizer_steps)
qed

lemma hartree_fock_steps:
  assumes "globals s ''HartreeFock'' = Some h" and "globals s ''qubitOp'' = Some q"
    and "globals s ''num_spin_orbitals'' = Some k" and "globals s ''num_particles'' = Some n"
    and "globals s ''map_type'' = Some m" and "globals s ''qubit_reduction'' = Some b"
  shows "case cell_hartree_fock lib s of (r, s') \<Rightarrow>
    (r = Inr () \<and> bound [''HF_state''] s') \<or> (\<exists>e. r = Inl e \<and> library_fault e)"
  using assms unfolding cell_hartree_fock_def
  by (simp add: prog_defs Let_def bound_def split: outcome.splits)

lemma hartree_fock_advances:
  assumes "bound [''HartreeFock'', ''qubitOp'', ''num_spin_orbitals'', ''num_particles'',
     ''map_type'', ''qubit_reduction''] s"
  shows "case cell_hartree_fock lib s of (r, s') \<Rightarrow>
    (r = Inr () \<and> bound [''HF_state''] s') \<or> (\<exists>e. r = Inl e \<and> library_fault e)"
proof -
  from assms obtain h q k n m b where "globals s ''HartreeFock'' = Some h"
    "globals s ''qubitOp'' = Some q" "globals s ''num_spin_orbitals'' = Some k"
    "globals s ''num_particles'' = Some n" "globals s ''map_type'' = Some m"
    "globals s ''qubit_reduction'' = Some b"
    by (auto simp add: bound_def)
  then show ?thesis by (rule hartree_fock_steps)
qed

lemma var_form_steps:
  assumes "globals s ''UCCSD'' = Some u" and "globals s ''qubitOp'' = Some q"
    and "globals s ''num_spin_orbitals'' = Some k" and "globals s ''num_particles'' = Some n"
    and "globals s ''HF_state'' = Some h"
    and "globals s ''map_type'' = Some m" and "globals s ''qubit_reduction'' = Some b"
  shows "case cell_var_form lib s of (r, s') \<Rightarrow>
    (r = Inr () \<and> bound [''var_form''] s') \<or> (\<exists>e. r = Inl e \<and> library_fault e)"
  using assms unfolding cell_var_form_def
  by (simp add: prog_defs Let_def bound_def split: outcome.splits)

lemma var_form_advances:
  assumes "bound [''UCCSD'', ''qubitOp'', ''num_spin_orbitals'', ''num_particles'',
     ''HF_state'', ''map_type'', ''qubit_reduction''] s"
  shows "case cell_var_form lib s of (r, s') \<Rightarrow>
    (r = Inr () \<and> bound [''var_form''] s') \<or> (\<exists>e. r = Inl e \<and> library_fault e)"
proof -
  from assms obtain u q k n h m b where "globals s ''UCCSD'' = Some u"
    "globals s ''qubitOp'' = Some q" "globals s ''num_spin_orbitals'' = Some k"
    "globals s ''num_particles'' = Some n" "globals s ''HF_state'' = Some h"
    "globals s ''map_type'' = Some m" "globals s ''qubit_reduction'' = Some b"
    by (auto simp add: bound_def)
  then show ?thesis by (rule var_form_steps)
qed

lemma setup_reaches_backend:
  "case run_cells
      [(''imports'', cell_imports lib), (''molecule'', cell_molecule lib),
       (''map_type'', cell_map_type cfg), (''fermionic'', cell_fermionic lib),
       (''mapping'', cell_mapping lib), (''optimizer'', cell_optimizer lib),
       (''hartree_fock'', cell_hartree_fock lib), (''var_form'', cell_var_form lib)] init_state of
     (None, s) \<Rightarrow> bound [''Aer'', ''IBMQ'', ''least_busy'', ''QuantumInstance''] s
   | (Some (c, e), s) \<Rightarrow> library_fault e"
  apply (rule run_cells_advance [where old = "[]", OF fp_cell_imports imports_advances])
     apply assumption
    apply (rule bound_Nil)
   apply simp
  apply (rule run_cells_advance [OF fp_cell_molecule molecule_advances])
     apply assumption
    apply assumption
   apply simp
  apply (rule run_cells_advance [OF fp_cell_map_type map_type_advances])
     apply assumption
    apply assumption
   apply simp
  apply (rule run_cells_advance [OF fp_cell_fermionic fermionic_advances])
     apply assumption
    apply assumption
   apply simp
  apply (rule run_cells_advance [OF fp_cell_mapping mapping_advances])
     apply assumption
    apply assumption
   apply simp
  apply (rule run_cells_advance [OF fp_cell_optimizer optimizer_advances])
     apply assumption
    apply assumption
   apply simp
  apply (rule run_cells_advance [OF fp_cell_hartree_fock hartree_fock_advances])
     apply assumption
    apply assumption
   apply simp
  apply (rule run_cells_advance [OF fp_cell_var_form var_form_advances])
     apply assumption
    apply assumption
   apply simp
  apply (simp add: bound_def)
  done

subsection \<open>The two branches of the backend setup\<close>

lemma backend_qasm_stops:
  assumes "globals s ''qasm'' = Some (PBool True)" and "globals s ''noise'' = None"
    and "globals s ''Aer'' = Some a" and "globals s ''IBMQ'' = Some i"
    and "globals s ''least_busy'' = Some l" and "globals s ''QuantumInstance'' = Some q"
    and "events_of ''Aer.get_backend'' (trace s) = []"
  shows "case cell_backend_qasm lib s of (r, s') \<Rightarrow>
    (\<exists>e. r = Inl e \<and> (e = NameError ''noise'' \<or> (\<exists>f x. e = External f x \<and> f \<in> set backend_calls))) \<and>
    (\<exists>b. events_of ''Aer.get_backend'' (trace s') =
       [Call ''Aer.get_backend'' [a, PStr ''qasm_simulator''] [] b])"
  using assms unfolding cell_backend_qasm_def
  by (simp add: prog_defs Let_def events_of_append backend_calls_def split: outcome.splits)

lemma backend_qasm_needs_qubit_mapper:
  assumes "globals s ''qasm'' = Some (PBool True)" and "globals s ''qubit_mapper'' = None"
    and "globals s ''noise'' = Some n"
    and "globals s ''Aer'' = Some a" and "globals s ''IBMQ'' = Some i"
    and "globals s ''least_busy'' = Some l" and "globals s ''QuantumInstance'' = Some q"
  shows "case cell_backend_qasm lib s of (r, s') \<Rightarrow>
    (\<exists>e. r = Inl e \<and> (e = NameError ''qubit_mapper'' \<or>
       (\<exists>f x. e = External f x \<and> f \<in> set (backend_calls @ noise_calls))))"
  using assms unfolding cell_backend_qasm_def
  by (simp add: prog_defs Let_def backend_calls_def noise_calls_def split: outcome.splits)

lemma statevector_branch_skipped:
  "globals s ''qasm'' = Some (PBool True) \<Longrightarrow> cell_backend_statevector lib s = (Inr (), s)"
  unfolding cell_backend_statevector_def by (simp add: prog_defs)

subsection \<open>The run on the library with fixed answers\<close>

lemma stub_hardcoded_run:
  "case run stub_library notebook_config of (r, s') \<Rightarrow>
     r = Some (''backend_qasm'', NameError ''noise'') \<and>
     events_of ''Aer.get_backend'' (trace s') =
       [Call ''Aer.get_backend'' [PImported ''Aer'', PStr ''qasm_simulator''] [] (Returns (PObj 0))]"
  by (simp add: run_def notebook_def cell_defs prog_defs op_defs stub_defs Let_def
      cong: bindP_weak_cong)

lemma stub_noise_imported_run:
  "fst (run_cells (notebook stub_library notebook_config) noise_imported) =
     Some (''backend_qasm'', NameError ''qubit_mapper'')"
  by (simp add: notebook_def noise_imported_def cell_defs prog_defs op_defs stub_defs Let_def
      cong: bindP_weak_cong)

lemma stub_with_noise:
  "fst (cell_backend_qasm stub_library with_noise) = Inl (NameError ''qubit_mapper'')"
  by (simp add: with_noise_def cell_backend_qasm_def prog_defs stub_defs Let_def
      cong: bindP_weak_cong)

subsection \<open>Every run\<close>

lemma quiet_cong:
  "same_on [''noise'', ''qubit_mapper'', ''sv_simulator''] solver_labels s s' \<Longrightarrow> quiet s \<Longrightarrow> quiet s'"
  by (simp add: same_on_def quiet_def list_all_iff)

lemma quiet_init: "quiet init_state"
  by (simp add: quiet_def init_state_def events_of_def list_all_iff)

text \<open>
  C10. Under the committed configuration (\<^verbatim>\<open>qasm = True\<close>) every run, whatever the libraries
  answer, ends with an exception. Unless a library fails in a cell before the backend
  setup, the run enters the \<^verbatim>\<open>if qasm:\<close> branch, which calls \<^verbatim>\<open>Aer.get_backend('qasm_simulator')\<close>,
  and the exception is raised in that branch: it is the NameError for \<^verbatim>\<open>noise\<close>, unless one of
  the library calls of the branch before the use of \<^verbatim>\<open>noise\<close> raised first. At the end of the
  run \<^verbatim>\<open>noise\<close> and \<^verbatim>\<open>qubit_mapper\<close> are still unbound, the branch of the exact simulator has
  not bound \<^verbatim>\<open>sv_simulator\<close>, and no call or print of the solver, the circuit drawing or the
  time evolution has happened. The cell of the exact simulator, \<^verbatim>\<open>if not qasm:\<close>, does nothing
  when \<^verbatim>\<open>qasm\<close> is true. And were \<^verbatim>\<open>noise\<close> bound, the \<^verbatim>\<open>if qasm:\<close> branch would still raise:
  the NameError for \<^verbatim>\<open>qubit_mapper\<close>, unless a library call before the use of that name raised.
\<close>

theorem hardcoded_run_stops_in_backend_setup:
  "(\<exists>c e s'. run lib notebook_config = (Some (c, e), s') \<and>
      ((c \<in> set setup_cells \<and> library_fault e) \<or>
       (c = ''backend_qasm'' \<and>
        (e = NameError ''noise'' \<or> (\<exists>f x. e = External f x \<and> f \<in> set backend_calls)) \<and>
        (\<exists>a b. events_of ''Aer.get_backend'' (trace s') =
           [Call ''Aer.get_backend'' [a, PStr ''qasm_simulator''] [] b]))) \<and>
      globals s' ''noise'' = None \<and> globals s' ''qubit_mapper'' = None \<and>
      globals s' ''sv_simulator'' = None \<and>
      list_all (\<lambda>l. events_of l (trace s') = []) solver_labels) \<and>
   (\<forall>s. globals s ''qasm'' = Some (PBool True) \<longrightarrow>
      cell_backend_statevector lib s = (Inr (), s)) \<and>
   (\<forall>s. globals s ''qasm'' = Some (PBool True) \<and> globals s ''qubit_mapper'' = None \<and>
      bound [''noise'', ''Aer'', ''IBMQ'', ''least_busy'', ''QuantumInstance''] s \<longrightarrow>
      (\<exists>e s'. cell_backend_qasm lib s = (Inl e, s') \<and>
         (e = NameError ''qubit_mapper'' \<or>
          (\<exists>f x. e = External f x \<and> f \<in> set (backend_calls @ noise_calls)))))"
proof (intro conjI allI impI)
  let ?nb = "notebook lib notebook_config"
  let ?ns = "[''noise'', ''qubit_mapper'', ''sv_simulator'']"
  let ?ls = "''Aer.get_backend'' # solver_labels"
  define pre where "pre = take 8 ?nb"
  have pre_eq: "[(''imports'', cell_imports lib), (''molecule'', cell_molecule lib),
       (''map_type'', cell_map_type notebook_config), (''fermionic'', cell_fermionic lib),
       (''mapping'', cell_mapping lib), (''optimizer'', cell_optimizer lib),
       (''hartree_fock'', cell_hartree_fock lib), (''var_form'', cell_var_form lib)] = pre"
    by (simp add: pre_def notebook_def)
  note reaches = setup_reaches_backend [of lib notebook_config, unfolded pre_eq]
  define I where "I s = (quiet s \<and> events_of ''Aer.get_backend'' (trace s) = [])" for s :: state
  define post where "post = drop 10 ?nb"
  have nb: "?nb = pre @
      (''qasm'', cell_qasm notebook_config) # (''backend_qasm'', cell_backend_qasm lib) # post"
    by (simp add: notebook_def post_def pre_def)
  have run: "run lib notebook_config = run_cells (pre @
      (''qasm'', cell_qasm notebook_config) # (''backend_qasm'', cell_backend_qasm lib) # post)
      init_state"
    by (simp only: run_def nb)
  have f_pre: "list_all (\<lambda>(c, m). frame_ok ?ns ?ls m) pre"
    by (simp add: pre_eq [symmetric] cell_frames solver_labels_def)
  have f_qasm: "frame_ok ?ns ?ls (cell_qasm notebook_config)"
    by (rule frame_okI [OF fp_cell_qasm]) (simp_all add: solver_labels_def)
  have f_backend: "frame_ok ?ns solver_labels (cell_backend_qasm lib)"
    by (rule frame_okI [OF fp_cell_backend_qasm]) (simp_all add: solver_labels_def)
  have congI: "\<And>s s'. same_on ?ns ?ls s s' \<Longrightarrow> I s \<Longrightarrow> I s'"
    by (simp add: same_on_def I_def quiet_def list_all_iff)
  have I0: "I init_state"
    using quiet_init by (simp add: I_def init_state_def)
  obtain r8 s8 where pre: "run_cells pre init_state = (r8, s8)"
    by (cases "run_cells pre init_state")
  have I8: "I s8"
    using run_cells_preserve [where I = I, OF f_pre congI I0] pre by simp
  show "\<exists>c e s'. run lib notebook_config = (Some (c, e), s') \<and>
      ((c \<in> set setup_cells \<and> library_fault e) \<or>
       (c = ''backend_qasm'' \<and>
        (e = NameError ''noise'' \<or> (\<exists>f x. e = External f x \<and> f \<in> set backend_calls)) \<and>
        (\<exists>a b. events_of ''Aer.get_backend'' (trace s') =
           [Call ''Aer.get_backend'' [a, PStr ''qasm_simulator''] [] b]))) \<and>
      globals s' ''noise'' = None \<and> globals s' ''qubit_mapper'' = None \<and>
      globals s' ''sv_simulator'' = None \<and>
      list_all (\<lambda>l. events_of l (trace s') = []) solver_labels"
  proof (cases r8)
    case (Some ce)
    obtain c e where ce: "ce = (c, e)" by (cases ce)
    from pre Some ce have "c \<in> set (map fst pre)"
      by (intro run_cells_fails_in) simp
    then have c: "c \<in> set setup_cells" by (auto simp add: pre_eq [symmetric] setup_cells_def)
    from reaches pre Some ce have e: "library_fault e"
      by simp
    from pre Some ce have "run lib notebook_config = (Some (c, e), s8)"
      unfolding run by (simp add: run_cells_append)
    with I8 c e show ?thesis by (simp add: I_def quiet_def)
  next
    case None
    from reaches pre None
    have b8: "bound [''Aer'', ''IBMQ'', ''least_busy'', ''QuantumInstance''] s8" by simp
    define s9 where "s9 = s8\<lparr>globals := (globals s8)(''qasm'' \<mapsto> PBool True)\<rparr>"
    have c9: "cell_qasm notebook_config s8 = (Inr (), s9)"
      by (simp add: cell_qasm_run notebook_config_def s9_def)
    have I9: "I s9"
      using f_qasm c9 I8 congI unfolding frame_ok_def by (metis snd_conv)
    from b8 obtain a i l q where b9: "globals s9 ''Aer'' = Some a" "globals s9 ''IBMQ'' = Some i"
      "globals s9 ''least_busy'' = Some l" "globals s9 ''QuantumInstance'' = Some q"
      by (auto simp add: s9_def bound_def)
    have qasm9: "globals s9 ''qasm'' = Some (PBool True)" by (simp add: s9_def)
    from I9 have noise9: "globals s9 ''noise'' = None"
      and ev9: "events_of ''Aer.get_backend'' (trace s9) = []" by (simp_all add: I_def quiet_def)
    obtain r10 s10 where c10: "cell_backend_qasm lib s9 = (r10, s10)"
      by (cases "cell_backend_qasm lib s9")
    from backend_qasm_stops [OF qasm9 noise9 b9 ev9, of lib] c10
    obtain e where r10: "r10 = Inl e"
      and e: "e = NameError ''noise'' \<or> (\<exists>f x. e = External f x \<and> f \<in> set backend_calls)"
      and ev10: "\<exists>b. events_of ''Aer.get_backend'' (trace s10) =
         [Call ''Aer.get_backend'' [a, PStr ''qasm_simulator''] [] b]"
      by auto
    from I9 have q9: "quiet s9" by (simp add: I_def)
    have q10: "quiet s10"
      using f_backend c10 q9 quiet_cong unfolding frame_ok_def by (metis snd_conv)
    from pre None c9 c10 r10 have "run lib notebook_config = (Some (''backend_qasm'', e), s10)"
      unfolding run by (simp add: run_cells_append)
    with q10 e ev10 show ?thesis by (simp add: quiet_def) blast
  qed
next
  fix s :: state
  assume "globals s ''qasm'' = Some (PBool True)"
  then show "cell_backend_statevector lib s = (Inr (), s)"
    by (rule statevector_branch_skipped)
next
  fix s :: state
  assume a: "globals s ''qasm'' = Some (PBool True) \<and> globals s ''qubit_mapper'' = None \<and>
      bound [''noise'', ''Aer'', ''IBMQ'', ''least_busy'', ''QuantumInstance''] s"
  then obtain n a i l q where b: "globals s ''noise'' = Some n" "globals s ''Aer'' = Some a"
    "globals s ''IBMQ'' = Some i" "globals s ''least_busy'' = Some l"
    "globals s ''QuantumInstance'' = Some q"
    by (auto simp add: bound_def)
  from a have q: "globals s ''qasm'' = Some (PBool True)" and m: "globals s ''qubit_mapper'' = None"
    by simp_all
  obtain r s' where c: "cell_backend_qasm lib s = (r, s')" by (cases "cell_backend_qasm lib s")
  from backend_qasm_needs_qubit_mapper [OF q m b, of lib] c
  show "\<exists>e s'. cell_backend_qasm lib s = (Inl e, s') \<and>
         (e = NameError ''qubit_mapper'' \<or>
          (\<exists>f x. e = External f x \<and> f \<in> set (backend_calls @ noise_calls)))"
    by auto
qed

theorem hardcoded_run_stops_in_backend_setup_witness:
  "fst (run stub_library notebook_config) = Some (''backend_qasm'', NameError ''noise'') \<and>
   events_of ''Aer.get_backend'' (trace (snd (run stub_library notebook_config))) =
     [Call ''Aer.get_backend'' [PImported ''Aer'', PStr ''qasm_simulator''] [] (Returns (PObj 0))] \<and>
   globals (snd (run stub_library notebook_config)) ''noise'' = None \<and>
   globals (snd (run stub_library notebook_config)) ''qubit_mapper'' = None \<and>
   globals (snd (run stub_library notebook_config)) ''sv_simulator'' = None \<and>
   list_all (\<lambda>l. events_of l (trace (snd (run stub_library notebook_config))) = []) solver_labels \<and>
   globals with_noise ''qasm'' = Some (PBool True) \<and>
   cell_backend_statevector stub_library with_noise = (Inr (), with_noise) \<and>
   globals with_noise ''qubit_mapper'' = None \<and>
   bound [''noise'', ''Aer'', ''IBMQ'', ''least_busy'', ''QuantumInstance''] with_noise \<and>
   fst (cell_backend_qasm stub_library with_noise) = Inl (NameError ''qubit_mapper'') \<and>
   fst (run_cells (notebook stub_library notebook_config) noise_imported) =
     Some (''backend_qasm'', NameError ''qubit_mapper'')"
proof -
  note main = hardcoded_run_stops_in_backend_setup [of stub_library]
  from main obtain c e s' where r: "run stub_library notebook_config = (Some (c, e), s')"
    and q: "globals s' ''noise'' = None" "globals s' ''qubit_mapper'' = None"
      "globals s' ''sv_simulator'' = None"
      "list_all (\<lambda>l. events_of l (trace s') = []) solver_labels"
    by blast
  have h: "globals with_noise ''qasm'' = Some (PBool True)"
    "globals with_noise ''qubit_mapper'' = None"
    "bound [''noise'', ''Aer'', ''IBMQ'', ''least_busy'', ''QuantumInstance''] with_noise"
    by (simp_all add: with_noise_def bound_def)
  from main h have skip: "cell_backend_statevector stub_library with_noise = (Inr (), with_noise)"
    by blast
  from main h obtain e' s'' where
    "cell_backend_qasm stub_library with_noise = (Inl e', s'')"
    "e' = NameError ''qubit_mapper'' \<or> (\<exists>f x. e' = External f x \<and> f \<in> set (backend_calls @ noise_calls))"
    by blast
  moreover have "\<not> (\<exists>f x. fst (cell_backend_qasm stub_library with_noise) = Inl (External f x))"
    by (simp add: stub_with_noise)
  ultimately have nq: "fst (cell_backend_qasm stub_library with_noise) = Inl (NameError ''qubit_mapper'')"
    by auto
  from r q h skip nq stub_hardcoded_run stub_noise_imported_run
  show ?thesis by simp
qed


end
